theory Spec2Isabelle
  imports Main
begin

section \<open>Python values: errors and integer formatting\<close>

text \<open>
  Every raise of the source is a value of this type. \<open>Exception\<close> carries the
  message of a plain \<^verbatim>\<open>raise Exception(...)\<close>.
\<close>

datatype error = AssertionError | IndexError | KeyError string | AttributeError string
  | TypeError | Exception string

text \<open>
  \<^verbatim>\<open>"%s" % n\<close> for a Python integer: the decimal digits, with a minus sign for a
  negative number.
\<close>

fun str_nat :: "nat \<Rightarrow> string" where
  "str_nat n =
     (if n < 10 then [''0123456789'' ! n]
      else str_nat (n div 10) @ [''0123456789'' ! (n mod 10)])"

declare str_nat.simps [simp del]

definition str_int :: "int \<Rightarrow> string" where
  "str_int i = (if i < 0 then ''-'' @ str_nat (nat (- i)) else str_nat (nat i))"

section \<open>External collaborators\<close>

text \<open>
  The cryptographic primitives (\<^verbatim>\<open>hmac\<close>, \<^verbatim>\<open>hashlib\<close>, \<^verbatim>\<open>pycoin\<close>) are
  libraries outside the repository. They are passed to every function that uses them:
  the HMAC-SHA256 digest of a key and a message, the reading of a 32-byte digest as a
  number, the multiple of the secp256k1 base point (as its coordinate pair), the
  encoding of a coordinate pair under a version prefix, and the version prefix of a
  network. \<open>descriptor_digest\<close> is the digest behind a color set's hash string (see
  \<open>get_hash_string\<close> below). \<open>loose_address\<close> is the address a loose record decodes
  from its imported key material.
\<close>

type_synonym color_desc = string
type_synonym color_id = nat
type_synonym colormap = "color_desc \<Rightarrow> color_id"
type_synonym point = "nat \<times> nat"

record externals =
  hmac_sha256 :: "string \<Rightarrow> string \<Rightarrow> string"
  from_bytes_32 :: "string \<Rightarrow> nat"
  BasePoint_times :: "nat \<Rightarrow> point"
  public_pair_to_bitcoin_address :: "point \<Rightarrow> string \<Rightarrow> string"
  addressprefix :: "bool \<Rightarrow> string"
  descriptor_digest :: "color_desc set \<Rightarrow> nat list"
  loose_address :: "string \<Rightarrow> bool \<Rightarrow> string"

section \<open>Color sets\<close>

text \<open>
  Modelled from the spec: the class \<^verbatim>\<open>ColorSet\<close> of \<^verbatim>\<open>coloredcoinlib\<close>, which is
  not among the source files. The spec: a color-set descriptor is a "serializable list
  identifying a set of colors; equality is semantic (same set of color ids), not
  structural identity"; the intersection test holds when two sets "share at least one
  color id"; the hash string is "a stable hash string computed from a color set's
  canonical descriptor". The source builds one with \<^verbatim>\<open>ColorSet(colormap, color_desc_list)\<close>
  and reads \<^verbatim>\<open>color_id_set\<close>, \<^verbatim>\<open>get_data()\<close>, \<^verbatim>\<open>equals\<close>, \<^verbatim>\<open>intersects\<close> and
  \<^verbatim>\<open>get_hash_string()\<close>. The color map resolves a descriptor to a color id. The
  canonical descriptor is the set of descriptors (order and repetition do not count),
  and the hash string is the hexadecimal rendering of a digest of it.
\<close>

record colorset =
  color_desc_list :: "color_desc list"
  color_id_set :: "color_id set"

definition ColorSet :: "colormap \<Rightarrow> color_desc list \<Rightarrow> colorset" where
  "ColorSet cm descs = \<lparr>color_desc_list = descs, color_id_set = cm ` set descs\<rparr>"

definition get_data :: "colorset \<Rightarrow> color_desc list" where
  "get_data cs = color_desc_list cs"

definition equals :: "colorset \<Rightarrow> colorset \<Rightarrow> bool" where
  "equals a b = (color_id_set a = color_id_set b)"

definition intersects :: "colorset \<Rightarrow> colorset \<Rightarrow> bool" where
  "intersects a b = (color_id_set a \<inter> color_id_set b \<noteq> {})"

definition hex_digit :: "nat \<Rightarrow> char" where
  "hex_digit n = ''0123456789abcdef'' ! (n mod 16)"

definition hexdigest :: "nat list \<Rightarrow> string" where
  "hexdigest bs = concat (map (\<lambda>b. [hex_digit (b div 16), hex_digit b]) bs)"

definition get_hash_string :: "externals \<Rightarrow> colorset \<Rightarrow> string" where
  "get_hash_string ext cs = hexdigest (descriptor_digest ext (set (color_desc_list cs)))"

section \<open>Deterministic address records\<close>

text \<open>
  \<^verbatim>\<open>DeterministicAddressRecord\<close> (deterministic.py, lines 14 to 58). The fields
  \<open>color_set\<close> and \<open>rec_testnet\<close> are those its base class \<^verbatim>\<open>AddressRecord\<close> keeps
  from the keyword arguments; \<open>hmac\<close> is the HMAC object, kept as its key and message;
  the three \<open>memo\<close> fields are \<^verbatim>\<open>_rawPrivKey\<close>, \<^verbatim>\<open>_publicPoint\<close> and \<^verbatim>\<open>_address\<close>.
\<close>

record deterministic_address_record =
  color_set :: colorset
  rec_testnet :: bool
  index :: int
  hmac :: "string \<times> string"
  memo_rawPrivKey :: "nat option"
  memo_publicPoint :: "point option"
  memo_address :: "string option"

text \<open>The local variable \<^verbatim>\<open>color_string\<close> of the constructor: the scope tag.\<close>

definition color_string :: "externals \<Rightarrow> colorset \<Rightarrow> string" where
  "color_string ext cs =
     (if length (get_data cs) = 0 then ''genesis block'' else get_hash_string ext cs)"

definition DeterministicAddressRecord ::
  "externals \<Rightarrow> string \<Rightarrow> colorset \<Rightarrow> int \<Rightarrow> bool \<Rightarrow> deterministic_address_record" where
  "DeterministicAddressRecord ext master_key cs idx tn =
     \<lparr>color_set = cs, rec_testnet = tn, index = idx,
      hmac = (master_key, color_string ext cs @ ''|'' @ str_int idx),
      memo_rawPrivKey = None, memo_publicPoint = None, memo_address = None\<rparr>"

text \<open>
  The three properties. Each returns its value and the record with the memo filled,
  as the Python property writes the private field on the first access.
\<close>

definition rawPrivKey ::
  "externals \<Rightarrow> deterministic_address_record \<Rightarrow> nat \<times> deterministic_address_record" where
  "rawPrivKey ext r =
     (case memo_rawPrivKey r of
        None \<Rightarrow>
          (let v = from_bytes_32 ext (hmac_sha256 ext (fst (hmac r)) (snd (hmac r)))
           in (v, r\<lparr>memo_rawPrivKey := Some v\<rparr>))
      | Some v \<Rightarrow> (v, r))"

definition publicPoint ::
  "externals \<Rightarrow> deterministic_address_record \<Rightarrow> point \<times> deterministic_address_record" where
  "publicPoint ext r =
     (case memo_publicPoint r of
        None \<Rightarrow>
          (let (k, r1) = rawPrivKey ext r; p = BasePoint_times ext k
           in (p, r1\<lparr>memo_publicPoint := Some p\<rparr>))
      | Some p \<Rightarrow> (p, r))"

definition address ::
  "externals \<Rightarrow> deterministic_address_record \<Rightarrow> string \<times> deterministic_address_record" where
  "address ext r =
     (case memo_address r of
        None \<Rightarrow>
          (let (p, r1) = publicPoint ext r;
               a = public_pair_to_bitcoin_address ext p (addressprefix ext (rec_testnet r1))
           in (a, r1\<lparr>memo_address := Some a\<rparr>))
      | Some a \<Rightarrow> (a, r))"

text \<open>
  Eager computation: the same three values computed at once from the constructor's
  arguments, with no memo.
\<close>

definition derive_scalar :: "externals \<Rightarrow> string \<Rightarrow> colorset \<Rightarrow> int \<Rightarrow> nat" where
  "derive_scalar ext master_key cs idx =
     from_bytes_32 ext (hmac_sha256 ext master_key (color_string ext cs @ ''|'' @ str_int idx))"

definition derive_point :: "externals \<Rightarrow> string \<Rightarrow> colorset \<Rightarrow> int \<Rightarrow> point" where
  "derive_point ext master_key cs idx = BasePoint_times ext (derive_scalar ext master_key cs idx)"

definition derive_address :: "externals \<Rightarrow> string \<Rightarrow> colorset \<Rightarrow> int \<Rightarrow> bool \<Rightarrow> string" where
  "derive_address ext master_key cs idx tn =
     public_pair_to_bitcoin_address ext (derive_point ext master_key cs idx) (addressprefix ext tn)"

text \<open>
  A client of a record: it reads a property or rebinds the record's color set (as the
  address manager does to a genesis record after constructing it).
\<close>

datatype access = Read_rawPrivKey | Read_publicPoint | Read_address | Rebind colorset

datatype observed = Scalar nat | Point point | Address_string string | Nothing

definition perform ::
  "externals \<Rightarrow> access \<Rightarrow> deterministic_address_record \<Rightarrow> observed \<times> deterministic_address_record" where
  "perform ext a r =
     (case a of
        Read_rawPrivKey \<Rightarrow> (let (v, r1) = rawPrivKey ext r in (Scalar v, r1))
      | Read_publicPoint \<Rightarrow> (let (v, r1) = publicPoint ext r in (Point v, r1))
      | Read_address \<Rightarrow> (let (v, r1) = address ext r in (Address_string v, r1))
      | Rebind cs \<Rightarrow> (Nothing, r\<lparr>color_set := cs\<rparr>))"

fun perform_all ::
  "externals \<Rightarrow> access list \<Rightarrow> deterministic_address_record
     \<Rightarrow> observed list \<times> deterministic_address_record" where
  "perform_all ext [] r = ([], r)"
| "perform_all ext (a # as) r =
     (let (v, r1) = perform ext a r; (vs, r2) = perform_all ext as r1 in (v # vs, r2))"

definition eager :: "externals \<Rightarrow> string \<Rightarrow> colorset \<Rightarrow> int \<Rightarrow> bool \<Rightarrow> access \<Rightarrow> observed" where
  "eager ext master_key cs idx tn a =
     (case a of
        Read_rawPrivKey \<Rightarrow> Scalar (derive_scalar ext master_key cs idx)
      | Read_publicPoint \<Rightarrow> Point (derive_point ext master_key cs idx)
      | Read_address \<Rightarrow> Address_string (derive_address ext master_key cs idx tn)
      | Rebind cs' \<Rightarrow> Nothing)"

text \<open>
  The state of a record some accesses after its construction: the key and message are
  the constructor's, and a memo that is filled holds the eager value.
\<close>

definition derived_from ::
  "externals \<Rightarrow> string \<Rightarrow> colorset \<Rightarrow> int \<Rightarrow> bool \<Rightarrow> deterministic_address_record \<Rightarrow> bool" where
  "derived_from ext master_key cs idx tn r =
     (hmac r = (master_key, color_string ext cs @ ''|'' @ str_int idx) \<and>
      rec_testnet r = tn \<and> index r = idx \<and>
      memo_rawPrivKey r \<in> {None, Some (derive_scalar ext master_key cs idx)} \<and>
      memo_publicPoint r \<in> {None, Some (derive_point ext master_key cs idx)} \<and>
      memo_address r \<in> {None, Some (derive_address ext master_key cs idx tn)})"

section \<open>The address manager\<close>

text \<open>
  The configuration is a dictionary; the model keeps the four keys the manager reads:
  \<^verbatim>\<open>testnet\<close>, \<^verbatim>\<open>dwam\<close>, \<^verbatim>\<open>dw_master_key\<close> and \<^verbatim>\<open>addresses\<close>, each absent
  (\<open>None\<close>) or present. The \<^verbatim>\<open>dwam\<close> entry holds the genesis registry and the list of
  counters, each counter a dictionary \<^verbatim>\<open>{"color_set": ..., "max_index": ...}\<close>.
\<close>

record color_set_st =
  st_color_set :: "color_desc list"
  st_max_index :: int

record dwam_params =
  dwam_genesis_color_sets :: "color_desc list list"
  dwam_color_set_states :: "color_set_st list"

text \<open>
  An entry of \<^verbatim>\<open>addresses\<close> is a dictionary with the keys \<^verbatim>\<open>address_data\<close> and
  \<^verbatim>\<open>color_set\<close>, the latter a descriptor list as it is read from storage;
  \<^verbatim>\<open>add_loose_address\<close> writes the key \<^verbatim>\<open>testnet\<close> and puts the color set it builds
  in the place of the descriptor list.
\<close>

datatype color_set_entry = Descriptors "color_desc list" | ColorSet_object colorset

record addr_params =
  address_data :: string
  params_testnet :: "bool option"
  params_color_set :: color_set_entry

record config =
  cfg_testnet :: "bool option"
  cfg_dwam :: "dwam_params option"
  cfg_dw_master_key :: "string option"
  cfg_addresses :: "addr_params list option"

text \<open>
  Modelled from the spec: the class \<^verbatim>\<open>LooseAddressRecord\<close> of \<^verbatim>\<open>address.py\<close>, which
  is not among the source files: "externally supplied key material wrapped into the same
  record shape but outside the deterministic scheme; carries no scope/index allocation
  semantics". It has a color set and a network flag and no index.
\<close>

record loose_address_record =
  loose_color_set :: colorset
  loose_testnet :: bool
  loose_address_data :: string

datatype address_object =
  Deterministic deterministic_address_record
| Loose loose_address_record

text \<open>
  Modelled from the spec: the accessors \<^verbatim>\<open>get_color_set\<close> and \<^verbatim>\<open>get_address\<close> of the
  base class \<^verbatim>\<open>AddressRecord\<close>, not among the source files: they return the record's
  color set and its address string. \<open>get_index\<close> reads the attribute \<^verbatim>\<open>index\<close>, which
  a loose record does not have. Reading the address of a deterministic record fills the
  record's memo fields; \<open>get_address\<close> returns the value only, since a filled memo
  changes no value read later.
\<close>

definition get_color_set :: "address_object \<Rightarrow> colorset" where
  "get_color_set obj =
     (case obj of Deterministic r \<Rightarrow> color_set r | Loose l \<Rightarrow> loose_color_set l)"

definition get_address :: "externals \<Rightarrow> address_object \<Rightarrow> string" where
  "get_address ext obj =
     (case obj of
        Deterministic r \<Rightarrow> fst (address ext r)
      | Loose l \<Rightarrow> loose_address ext (loose_address_data l) (loose_testnet l))"

definition get_index :: "address_object \<Rightarrow> int option" where
  "get_index obj = (case obj of Deterministic r \<Rightarrow> Some (index r) | Loose l \<Rightarrow> None)"

definition with_color_set :: "colorset \<Rightarrow> address_object \<Rightarrow> address_object" where
  "with_color_set cs obj =
     (case obj of
        Deterministic r \<Rightarrow> Deterministic (r\<lparr>color_set := cs\<rparr>)
      | Loose l \<Rightarrow> Loose (l\<lparr>loose_color_set := cs\<rparr>))"

text \<open>
  \<^verbatim>\<open>DWalletAddressManager\<close> (deterministic.py, lines 61 to 269). Address records are
  Python objects, shared by reference between the manager's set and its callers, and
  one method (\<^verbatim>\<open>update_genesis_address\<close>) writes a field of a record it is given. So
  the records live in a store, \<open>heap\<close>, a reference is a position in it, and
  \<open>addresses\<close> holds the references of the Python set, each once; the list keeps
  the order of insertion, and the order in which the set is iterated is another matter
  (see \<open>list_of_set\<close> below).

  The lookups \<^verbatim>\<open>find_address_by_wif\<close> and \<^verbatim>\<open>find_address_record\<close> change nothing
  and are not modelled.

  \<open>genesis_color_sets\<close> and \<open>color_set_states\<close> are in Python the very lists of the
  \<^verbatim>\<open>dwam\<close> entry; the model keeps the manager's lists and the configuration's apart
  and \<open>update_config\<close> copies the former into the latter, which every mutating method
  calls before it returns.
\<close>

record manager =
  config :: config
  testnet :: bool
  colormap :: colormap
  addresses :: "nat list"
  master_key :: string
  genesis_color_sets :: "color_desc list list"
  color_set_states :: "color_set_st list"
  heap :: "address_object list"

definition new_object :: "address_object \<Rightarrow> manager \<Rightarrow> nat \<times> manager" where
  "new_object obj m = (length (heap m), m\<lparr>heap := heap m @ [obj]\<rparr>)"

definition addresses_add :: "nat \<Rightarrow> manager \<Rightarrow> manager" where
  "addresses_add ref m =
     (if ref \<in> set (addresses m) then m else m\<lparr>addresses := addresses m @ [ref]\<rparr>)"

definition set_color_set :: "nat \<Rightarrow> colorset \<Rightarrow> manager \<Rightarrow> manager" where
  "set_color_set ref cs m = m\<lparr>heap := (heap m)[ref := with_color_set cs (heap m ! ref)]\<rparr>"

definition update_config :: "manager \<Rightarrow> manager" where
  "update_config m =
     m\<lparr>config := (config m)\<lparr>cfg_dwam :=
          Some \<lparr>dwam_genesis_color_sets = genesis_color_sets m,
                dwam_color_set_states = color_set_states m\<rparr>\<rparr>\<rparr>"

text \<open>
  \<^verbatim>\<open>init_new_wallet\<close> touches the configuration only. \<open>urandom_hex\<close> is the value of
  \<^verbatim>\<open>os.urandom(64).encode('hex')\<close>.
\<close>

definition init_new_wallet :: "string \<Rightarrow> config \<Rightarrow> dwam_params \<times> config" where
  "init_new_wallet urandom_hex cfg =
     (let cfg1 = (if cfg_dw_master_key cfg = None
                  then cfg\<lparr>cfg_dw_master_key := Some urandom_hex\<rparr> else cfg);
          dwam = \<lparr>dwam_genesis_color_sets = [], dwam_color_set_states = []\<rparr>
      in (dwam, cfg1\<lparr>cfg_dwam := Some dwam\<rparr>))"

definition get_genesis_address :: "externals \<Rightarrow> manager \<Rightarrow> int \<Rightarrow> nat \<times> manager" where
  "get_genesis_address ext m genesis_index =
     new_object
       (Deterministic
          (DeterministicAddressRecord ext (master_key m) (ColorSet (colormap m) [])
             genesis_index (testnet m)))
       m"

fun import_genesis_loop ::
  "externals \<Rightarrow> (nat \<times> color_desc list) list \<Rightarrow> manager \<Rightarrow> manager" where
  "import_genesis_loop ext [] m = m"
| "import_genesis_loop ext ((i, descs) # rest) m =
     (let (addr, m1) = get_genesis_address ext m (int i);
          m2 = set_color_set addr (ColorSet (colormap m1) descs) m1
      in import_genesis_loop ext rest (addresses_add addr m2))"

definition import_genesis_addresses :: "externals \<Rightarrow> manager \<Rightarrow> manager" where
  "import_genesis_addresses ext m =
     import_genesis_loop ext (enumerate 0 (genesis_color_sets m)) m"

text \<open>\<^verbatim>\<open>xrange(n)\<close>: the integers from 0 up to \<open>n - 1\<close>, none when \<open>n \<le> 0\<close>.\<close>

definition xrange :: "int \<Rightarrow> int list" where
  "xrange n = map int [0..<nat n]"

fun import_indices :: "externals \<Rightarrow> colorset \<Rightarrow> int list \<Rightarrow> manager \<Rightarrow> manager" where
  "import_indices ext cs [] m = m"
| "import_indices ext cs (idx # rest) m =
     (let (ref, m1) = new_object
            (Deterministic (DeterministicAddressRecord ext (master_key m) cs idx (testnet m))) m
      in import_indices ext cs rest (addresses_add ref m1))"

fun import_states :: "externals \<Rightarrow> color_set_st list \<Rightarrow> manager \<Rightarrow> manager" where
  "import_states ext [] m = m"
| "import_states ext (color_set_st # rest) m =
     (let descs = st_color_set color_set_st;
          max_index = st_max_index color_set_st;
          cs = ColorSet (colormap m) descs
      in import_states ext rest (import_indices ext cs (xrange (max_index + 1)) m))"

definition import_specific_color_addresses :: "externals \<Rightarrow> manager \<Rightarrow> manager" where
  "import_specific_color_addresses ext m = import_states ext (color_set_states m) m"

text \<open>
  \<^verbatim>\<open>add_loose_address\<close> writes into the dictionary it is given: first the network
  flag, then the color set built from the entry \<^verbatim>\<open>color_set\<close>. The result carries the
  dictionary as the call leaves it. A dictionary that went through the method before
  holds a color set where the descriptor list was, and building a color set from that
  raises TypeError. The constructor of a loose record decodes the key material, which
  is outside the source files; the model takes it to succeed.
\<close>

definition add_loose_address ::
  "manager \<Rightarrow> addr_params \<Rightarrow> (error \<times> addr_params) + (nat \<times> addr_params \<times> manager)" where
  "add_loose_address m ap =
     (let ap1 = ap\<lparr>params_testnet := Some (testnet m)\<rparr>
      in case params_color_set ap1 of
           ColorSet_object c \<Rightarrow> Inl (TypeError, ap1)
         | Descriptors descs \<Rightarrow>
             (let cs = ColorSet (colormap m) descs;
                  ap2 = ap1\<lparr>params_color_set := ColorSet_object cs\<rparr>;
                  (ref, m1) = new_object
                    (Loose \<lparr>loose_color_set = cs, loose_testnet = testnet m,
                            loose_address_data = address_data ap2\<rparr>) m
              in Inr (ref, ap2, addresses_add ref m1)))"

text \<open>
  \<^verbatim>\<open>map(self.add_loose_address, self.config.get('addresses', []))\<close>: the method is
  applied to the entries in order. The entries are the dictionaries of the configuration,
  so the configuration holds them as the calls leave them, also when one of the calls
  raises.
\<close>

fun add_loose_addresses ::
  "manager \<Rightarrow> addr_params list \<Rightarrow> (error \<times> addr_params list) + (addr_params list \<times> manager)" where
  "add_loose_addresses m [] = Inr ([], m)"
| "add_loose_addresses m (ap # aps) =
     (case add_loose_address m ap of
        Inl (e, ap') \<Rightarrow> Inl (e, ap' # aps)
      | Inr (ref, ap', m1) \<Rightarrow>
          (case add_loose_addresses m1 aps of
             Inl (e, aps') \<Rightarrow> Inl (e, ap' # aps')
           | Inr (aps', m2) \<Rightarrow> Inr (ap' # aps', m2)))"

definition import_one_off_addresses_from_config :: "manager \<Rightarrow> (error \<times> config) + manager" where
  "import_one_off_addresses_from_config m =
     (case cfg_addresses (config m) of
        None \<Rightarrow> Inr m
      | Some aps \<Rightarrow>
          (case add_loose_addresses m aps of
             Inl (e, aps') \<Rightarrow> Inl (e, (config m)\<lparr>cfg_addresses := Some aps'\<rparr>)
           | Inr (aps', m1) \<Rightarrow> Inr (m1\<lparr>config := (config m1)\<lparr>cfg_addresses := Some aps'\<rparr>\<rparr>)))"

text \<open>
  The constructor. It fails when the configuration has a \<^verbatim>\<open>dwam\<close> entry and no
  \<^verbatim>\<open>dw_master_key\<close>, and when the import of a one-off address fails; the failure
  carries the configuration as the constructor leaves it.
\<close>

definition DWalletAddressManager ::
  "externals \<Rightarrow> string \<Rightarrow> colormap \<Rightarrow> config \<Rightarrow> (error \<times> config) + manager" where
  "DWalletAddressManager ext urandom_hex cm cfg =
     (let tn = (case cfg_testnet cfg of None \<Rightarrow> False | Some b \<Rightarrow> b);
          (params, cfg1) = (case cfg_dwam cfg of
                              None \<Rightarrow> init_new_wallet urandom_hex cfg
                            | Some p \<Rightarrow> (p, cfg))
      in case cfg_dw_master_key cfg1 of
           None \<Rightarrow> Inl (KeyError ''dw_master_key'', cfg1)
         | Some key \<Rightarrow>
             import_one_off_addresses_from_config
               (import_specific_color_addresses ext
                  (import_genesis_addresses ext
                     \<lparr>config = cfg1, testnet = tn, colormap = cm, addresses = [],
                      master_key = key,
                      genesis_color_sets = dwam_genesis_color_sets params,
                      color_set_states = dwam_color_set_states params,
                      heap = []\<rparr>)))"

text \<open>
  \<^verbatim>\<open>increment_max_index_for_color_set\<close>: the loop returns at the first counter whose
  color set equals the given one; \<open>None\<close> is the loop running to its end.
\<close>

fun increment_loop ::
  "colormap \<Rightarrow> colorset \<Rightarrow> color_set_st list \<Rightarrow> (int \<times> color_set_st list) option" where
  "increment_loop cm cs [] = None"
| "increment_loop cm cs (color_set_st # rest) =
     (let descs = st_color_set color_set_st;
          max_index = st_max_index color_set_st;
          cur_color_set = ColorSet cm descs
      in if equals cur_color_set cs
         then Some (max_index + 1, color_set_st\<lparr>st_max_index := max_index + 1\<rparr> # rest)
         else map_option (\<lambda>(i, sts). (i, color_set_st # sts)) (increment_loop cm cs rest))"

definition increment_max_index_for_color_set :: "manager \<Rightarrow> colorset \<Rightarrow> int \<times> manager" where
  "increment_max_index_for_color_set m cs =
     (case increment_loop (colormap m) cs (color_set_states m) of
        Some (max_index, sts) \<Rightarrow> (max_index, m\<lparr>color_set_states := sts\<rparr>)
      | None \<Rightarrow>
          (0, m\<lparr>color_set_states := color_set_states m
                   @ [\<lparr>st_color_set = get_data cs, st_max_index = 0\<rparr>]\<rparr>))"

text \<open>
  Modelled from the spec: \<^verbatim>\<open>AssetDefinition\<close> of \<^verbatim>\<open>asset.py\<close>, not among the source
  files; \<^verbatim>\<open>get_color_set()\<close> returns the asset's color set. The argument of
  \<^verbatim>\<open>get_new_address\<close> is an asset or a color set.
\<close>

datatype asset_or_color_set = AssetDefinition colorset | A_color_set colorset

definition resolve_color_set :: "asset_or_color_set \<Rightarrow> colorset" where
  "resolve_color_set a = (case a of AssetDefinition cs \<Rightarrow> cs | A_color_set cs \<Rightarrow> cs)"

definition get_new_address :: "externals \<Rightarrow> manager \<Rightarrow> asset_or_color_set \<Rightarrow> nat \<times> manager" where
  "get_new_address ext m asset_or_color_set =
     (let cs = resolve_color_set asset_or_color_set;
          (idx, m1) = increment_max_index_for_color_set m cs;
          (na, m2) = new_object
            (Deterministic (DeterministicAddressRecord ext (master_key m1) cs idx (testnet m1))) m1
      in (na, update_config (addresses_add na m2)))"

definition get_new_genesis_address :: "externals \<Rightarrow> manager \<Rightarrow> nat \<times> manager" where
  "get_new_genesis_address ext m =
     (let idx = int (length (genesis_color_sets m));
          m1 = update_config (m\<lparr>genesis_color_sets := genesis_color_sets m @ [[]]\<rparr>);
          (addr, m2) = get_genesis_address ext m1 idx
      in (addr, addresses_add addr m2))"

text \<open>
  \<^verbatim>\<open>xs[i] = v\<close> on a Python list: a negative index counts from the end, and an index
  out of range raises IndexError (\<open>None\<close>).
\<close>

definition list_setitem :: "'a list \<Rightarrow> int \<Rightarrow> 'a \<Rightarrow> 'a list option" where
  "list_setitem xs i v =
     (if 0 \<le> i \<and> i < int (length xs) then Some (xs[nat i := v])
      else if i < 0 \<and> - int (length xs) \<le> i then Some (xs[nat (int (length xs) + i) := v])
      else None)"

text \<open>
  \<^verbatim>\<open>update_genesis_address\<close>. A failure carries the state at the raise, since the
  record's color set is rebound before the registry is written. A reference outside
  the store stands for an argument that is no address record.
\<close>

definition update_genesis_address ::
  "manager \<Rightarrow> nat \<Rightarrow> colorset \<Rightarrow> (error \<times> manager) + manager" where
  "update_genesis_address m addr cs =
     (if \<not> addr < length (heap m) then Inl (AttributeError ''color_set'', m)
      else if \<not> (color_id_set (get_color_set (heap m ! addr)) = {})
      then Inl (AssertionError, m)
      else
        (let m1 = set_color_set addr cs m
         in case get_index (heap m1 ! addr) of
              None \<Rightarrow> Inl (AttributeError ''index'', m1)
            | Some i \<Rightarrow>
                (case list_setitem (genesis_color_sets m1) i (get_data cs) of
                   None \<Rightarrow> Inl (IndexError, m1)
                 | Some g \<Rightarrow> Inr (update_config (m1\<lparr>genesis_color_sets := g\<rparr>)))))"

text \<open>
  \<^verbatim>\<open>list(self.addresses)\<close>: a Python set is iterated in an order of its own, which
  is neither the order of insertion nor fixed from one call to the next. The methods that
  iterate the set take that order as an argument \<open>rank\<close>: the list is the set's
  references sorted by their rank, which is a permutation of them, and any permutation
  for a suitable rank.
\<close>

definition list_of_set :: "(nat \<Rightarrow> nat) \<Rightarrow> nat list \<Rightarrow> nat list" where
  "list_of_set rank refs = sort_key rank refs"

definition get_addresses_for_color_set :: "(nat \<Rightarrow> nat) \<Rightarrow> manager \<Rightarrow> colorset \<Rightarrow> nat list" where
  "get_addresses_for_color_set rank m cs =
     filter (\<lambda>addr. intersects cs (get_color_set (heap m ! addr)))
       (list_of_set rank (addresses m))"

definition get_some_address ::
  "externals \<Rightarrow> (nat \<Rightarrow> nat) \<Rightarrow> manager \<Rightarrow> colorset \<Rightarrow> nat \<times> manager" where
  "get_some_address ext rank m cs =
     (case get_addresses_for_color_set rank m cs of
        [] \<Rightarrow> get_new_address ext m (A_color_set cs)
      | a # acs \<Rightarrow> (a, m))"

definition get_change_address ::
  "externals \<Rightarrow> (nat \<Rightarrow> nat) \<Rightarrow> manager \<Rightarrow> colorset \<Rightarrow> nat \<times> manager" where
  "get_change_address ext rank m cs = get_some_address ext rank m cs"

definition get_all_addresses :: "(nat \<Rightarrow> nat) \<Rightarrow> manager \<Rightarrow> nat list" where
  "get_all_addresses rank m = list_of_set rank (addresses m)"

section \<open>Runs of allocations and the persisted state\<close>

text \<open>
  The counter the manager finds for a color set: the first one whose color set, rebuilt
  through the color map, equals it. \<open>persisted_max_index\<close> reads that counter from
  the \<^verbatim>\<open>dwam\<close> entry of a configuration.
\<close>

definition find_state :: "colormap \<Rightarrow> colorset \<Rightarrow> color_set_st list \<Rightarrow> color_set_st option" where
  "find_state cm cs sts = find (\<lambda>st. equals (ColorSet cm (st_color_set st)) cs) sts"

definition persisted_max_index :: "colormap \<Rightarrow> config \<Rightarrow> colorset \<Rightarrow> int option" where
  "persisted_max_index cm cfg cs =
     (case cfg_dwam cfg of
        None \<Rightarrow> None
      | Some p \<Rightarrow> map_option st_max_index (find_state cm cs (dwam_color_set_states p)))"

text \<open>
  A run of calls of \<^verbatim>\<open>get_new_address\<close>, one for each request. For each call it
  records what the caller sees when the call returns: the index of the record it got, and
  the maximum the configuration then holds for the request's color set.
\<close>

fun allocation_run ::
  "externals \<Rightarrow> manager \<Rightarrow> asset_or_color_set list \<Rightarrow> (int option \<times> int option) list \<times> manager" where
  "allocation_run ext m [] = ([], m)"
| "allocation_run ext m (q # qs) =
     (let (na, m1) = get_new_address ext m q;
          seen = (get_index (heap m1 ! na),
                  persisted_max_index (colormap m1) (config m1) (resolve_color_set q));
          (rest, m2) = allocation_run ext m1 qs
      in (seen # rest, m2))"

text \<open>
  A color set of this wallet: its color ids are those of its descriptors under the wallet's
  color map, which is what \<^verbatim>\<open>ColorSet(colormap, descs)\<close> builds.
\<close>

definition well_formed :: "colormap \<Rightarrow> colorset \<Rightarrow> bool" where
  "well_formed cm cs = (color_id_set cs = cm ` set (get_data cs))"

text \<open>
  What a caller does to a wallet: it asks for a new address, mints a genesis address, or
  binds a genesis address to a color set. A run applies such steps in order; a binding
  that raises leaves the state it had reached, and the run goes on from there.
  \<open>requests_of\<close> are the color sets (or assets) a run asks new addresses for.
\<close>

datatype wallet_op = Allocate asset_or_color_set | Mint_genesis | Bind_genesis nat colorset

definition wallet_step :: "externals \<Rightarrow> manager \<Rightarrow> wallet_op \<Rightarrow> manager" where
  "wallet_step ext m step =
     (case step of
        Allocate q \<Rightarrow> snd (get_new_address ext m q)
      | Mint_genesis \<Rightarrow> snd (get_new_genesis_address ext m)
      | Bind_genesis addr cs \<Rightarrow>
          (case update_genesis_address m addr cs of Inl (e, m') \<Rightarrow> m' | Inr m' \<Rightarrow> m'))"

definition wallet_run :: "externals \<Rightarrow> manager \<Rightarrow> wallet_op list \<Rightarrow> manager" where
  "wallet_run ext m steps = foldl (wallet_step ext) m steps"

definition requests_of :: "wallet_op list \<Rightarrow> asset_or_color_set list" where
  "requests_of steps =
     concat (map (\<lambda>step. case step of Allocate q \<Rightarrow> [q] | _ \<Rightarrow> []) steps)"

text \<open>
  The address strings a manager holds, and the configuration a restart is given: the
  persisted \<^verbatim>\<open>dwam\<close> entry with the same master key and network flag, and nothing else.
\<close>

definition address_strings :: "externals \<Rightarrow> manager \<Rightarrow> string set" where
  "address_strings ext m = set (map (\<lambda>ref. get_address ext (heap m ! ref)) (addresses m))"

definition persisted_state :: "config \<Rightarrow> config" where
  "persisted_state cfg =
     \<lparr>cfg_testnet = cfg_testnet cfg, cfg_dwam = cfg_dwam cfg,
      cfg_dw_master_key = cfg_dw_master_key cfg, cfg_addresses = None\<rparr>"

section \<open>Notions used in the statements and their proofs\<close>

text \<open>
  \<open>counter\<close> is the maximum found for a color set, \<open>- 1\<close> when there is none.
  \<open>held\<close> are the records behind the manager's references, \<open>refs_ok\<close> says that
  every reference is in the store, and \<open>same_wallet\<close> that two managers differ in
  their records only. \<open>expected_strings\<close> are the addresses the persisted state
  stands for: one for each genesis position, and one for each index up to the maximum of
  each counter. \<open>in_sync\<close> is the invariant of the manager between calls.
\<close>

definition counter :: "colormap \<Rightarrow> colorset \<Rightarrow> color_set_st list \<Rightarrow> int" where
  "counter cm cs sts = (case find_state cm cs sts of None \<Rightarrow> - 1 | Some st \<Rightarrow> st_max_index st)"

definition held :: "manager \<Rightarrow> address_object list" where
  "held m = map ((!) (heap m)) (addresses m)"

definition refs_ok :: "manager \<Rightarrow> bool" where
  "refs_ok m = (\<forall>r\<in>set (addresses m). r < length (heap m))"

definition same_wallet :: "manager \<Rightarrow> manager \<Rightarrow> bool" where
  "same_wallet m m' =
     (config m' = config m \<and> testnet m' = testnet m \<and> colormap m' = colormap m \<and>
      master_key m' = master_key m \<and> genesis_color_sets m' = genesis_color_sets m \<and>
      color_set_states m' = color_set_states m)"

definition state_strings :: "externals \<Rightarrow> colormap \<Rightarrow> string \<Rightarrow> bool \<Rightarrow> color_set_st \<Rightarrow> string set" where
  "state_strings ext cm key tn st =
     (\<lambda>idx. derive_address ext key (ColorSet cm (st_color_set st)) idx tn)
       ` set (xrange (st_max_index st + 1))"

definition expected_strings :: "externals \<Rightarrow> manager \<Rightarrow> string set" where
  "expected_strings ext m =
     (\<lambda>i. derive_address ext (master_key m) (ColorSet (colormap m) []) (int i) (testnet m))
        ` {..<length (genesis_color_sets m)}
     \<union> (\<Union>st\<in>set (color_set_states m).
           state_strings ext (colormap m) (master_key m) (testnet m) st)"

definition counters_ok :: "color_desc set \<Rightarrow> color_set_st list \<Rightarrow> bool" where
  "counters_ok D sts = (\<forall>st\<in>set sts. - 1 \<le> st_max_index st \<and> set (st_color_set st) \<subseteq> D)"

definition in_sync :: "externals \<Rightarrow> color_desc set \<Rightarrow> manager \<Rightarrow> bool" where
  "in_sync ext D m =
     (refs_ok m \<and> address_strings ext m = expected_strings ext m \<and>
      counters_ok D (color_set_states m) \<and>
      cfg_dwam (config m) = Some \<lparr>dwam_genesis_color_sets = genesis_color_sets m,
                                   dwam_color_set_states = color_set_states m\<rparr> \<and>
      cfg_dw_master_key (config m) = Some (master_key m) \<and>
      testnet m = (case cfg_testnet (config m) of None \<Rightarrow> False | Some b \<Rightarrow> b))"

section \<open>The backend factory\<close>

text \<open>
  \<^verbatim>\<open>BaseUTXOFetcher.make_interface\<close> (utxo_fetcher.py, lines 26 to 47). The
  parameters are a dictionary of Python values; \<open>model_testnet\<close> is
  \<^verbatim>\<open>model.testnet\<close>. The interface classes are other modules: the result names the
  constructor that is called and its arguments, and an error means that none is called.
\<close>

datatype pyval = PyNone | PyStr string | PyInt int

datatype interface =
  ChromanodeInterface pyval bool
| HelloBlockInterface bool
| BlockchainInfoInterface
| AbeInterface
| ElectrumInterface pyval pyval

definition DEFAULT_ELECTRUM_SERVER :: string where
  "DEFAULT_ELECTRUM_SERVER = ''btc.it-zone.org''"

definition DEFAULT_ELECTRUM_PORT :: int where
  "DEFAULT_ELECTRUM_PORT = 50001"

definition params_get :: "(string \<rightharpoonup> pyval) \<Rightarrow> string \<Rightarrow> pyval \<Rightarrow> pyval" where
  "params_get params k d = (case params k of None \<Rightarrow> d | Some v \<Rightarrow> v)"

definition make_interface :: "bool \<Rightarrow> (string \<rightharpoonup> pyval) \<Rightarrow> error + interface" where
  "make_interface model_testnet params =
     (let use0 = params_get params ''interface'' (PyStr ''chromanode'');
          use = (if model_testnet
                 then (if use0 \<notin> set [PyStr ''chromanode'', PyStr ''helloblock'', PyStr ''abe_testnet'']
                       then PyStr ''chromanode'' else use0)
                 else use0)
      in if use = PyStr ''chromanode'' then Inr (ChromanodeInterface PyNone model_testnet)
         else if use = PyStr ''helloblock'' then Inr (HelloBlockInterface model_testnet)
         else if use = PyStr ''blockchain.info'' then Inr BlockchainInfoInterface
         else if use = PyStr ''abe_testnet'' then Inr AbeInterface
         else if use = PyStr ''electrum''
         then (let electrum_server = params_get params ''electrum_server'' (PyStr DEFAULT_ELECTRUM_SERVER);
                   electrum_port = params_get params ''electrum_port'' (PyInt DEFAULT_ELECTRUM_PORT)
               in Inr (ElectrumInterface electrum_server electrum_port))
         else Inl (Exception ''Unknown service for UTXOFetcher!''))"

text \<open>
  The names the dispatch knows, and the names allowed on testnet.
\<close>

definition known_services :: "pyval set" where
  "known_services = {PyStr ''chromanode'', PyStr ''helloblock'', PyStr ''blockchain.info'',
                     PyStr ''abe_testnet'', PyStr ''electrum''}"

definition testnet_services :: "pyval set" where
  "testnet_services = {PyStr ''chromanode'', PyStr ''helloblock'', PyStr ''abe_testnet''}"

section \<open>The background fetcher\<close>

text \<open>
  \<^verbatim>\<open>AsyncUTXOFetcher\<close> and \<^verbatim>\<open>ServerUTXOFetcher\<close> (utxo_fetcher.py, lines 74 to
  151), as one thread sees them. \<open>hash_queue\<close> is the \<^verbatim>\<open>Queue.Queue\<close>: \<^verbatim>\<open>put\<close>
  appends and \<^verbatim>\<open>get\<close> takes the head. \<open>tx_db\<close> is the transaction store of the
  model, of any type, and \<open>add_tx_by_hash\<close> its method: it answers whether the id
  brought new data and may change the store. \<open>get_utxo\<close> is the backend: for an
  address it returns transaction ids or raises.

  \<open>events\<close> is a log kept for the statements below: taking and releasing
  \<^verbatim>\<open>self.lock\<close>, reading the manager's addresses into the address list, each call of
  the backend and of the store, each \<^verbatim>\<open>print\<close>, and
  the wait on \<^verbatim>\<open>stop_evt\<close>. The flag \<open>running\<close> is written by \<^verbatim>\<open>stop()\<close> on
  another thread; the model covers the steps of one thread with no step of another in
  between. \<^verbatim>\<open>start_thread\<close> and \<^verbatim>\<open>stop\<close>, which create and join the worker thread,
  are not modelled.
\<close>

datatype event =
  Lock_acquire | Lock_release | Get_all_addresses | Get_utxo string | Add_tx_by_hash string
| Print error | Stop_evt_wait

record 'db fetcher =
  address_list :: "string list"
  hash_queue :: "string list"
  running :: bool
  tx_db :: 'db
  events :: "event list"

definition emit :: "event \<Rightarrow> 'db fetcher \<Rightarrow> 'db fetcher" where
  "emit e f = f\<lparr>events := events f @ [e]\<rparr>"

text \<open>
  \<^verbatim>\<open>update\<close>: the loop \<^verbatim>\<open>while not self.hash_queue.empty()\<close> is a recursion on
  the queue.
\<close>

fun update_loop ::
  "('db \<Rightarrow> string \<Rightarrow> bool \<times> 'db) \<Rightarrow> string list \<Rightarrow> 'db fetcher \<Rightarrow> bool \<Rightarrow> bool \<times> 'db fetcher" where
  "update_loop add_tx_by_hash [] f any_got_updates = (any_got_updates, f)"
| "update_loop add_tx_by_hash (txhash # queue) f any_got_updates =
     (let (got_updates, db) = add_tx_by_hash (tx_db f) txhash;
          f1 = emit (Add_tx_by_hash txhash) (f\<lparr>hash_queue := queue, tx_db := db\<rparr>)
      in update_loop add_tx_by_hash queue f1 (any_got_updates \<or> got_updates))"

definition update ::
  "externals \<Rightarrow> (nat \<Rightarrow> nat) \<Rightarrow> ('db \<Rightarrow> string \<Rightarrow> bool \<times> 'db) \<Rightarrow> manager \<Rightarrow> 'db fetcher
     \<Rightarrow> bool \<times> 'db fetcher" where
  "update ext rank add_tx_by_hash wam f =
     (let f1 = emit Lock_acquire f;
          addressrecords = get_all_addresses rank wam;
          f2 = (emit Get_all_addresses f1)
                 \<lparr>address_list := map (\<lambda>ar. get_address ext (heap wam ! ar)) addressrecords\<rparr>;
          f3 = emit Lock_release f2
      in update_loop add_tx_by_hash (hash_queue f3) f3 False)"



text \<open>
  \<^verbatim>\<open>scan_address\<close>, with \<^verbatim>\<open>add_utxo\<close> of the asynchronous fetcher, and
  \<^verbatim>\<open>is_running\<close>.
\<close>

definition add_utxo :: "string \<Rightarrow> string \<Rightarrow> 'db fetcher \<Rightarrow> 'db fetcher" where
  "add_utxo address' txid f = f\<lparr>hash_queue := hash_queue f @ [txid]\<rparr>"

definition scan_address ::
  "(string \<Rightarrow> error + string list) \<Rightarrow> string \<Rightarrow> 'db fetcher \<Rightarrow> (error + unit) \<times> 'db fetcher" where
  "scan_address get_utxo address' f =
     (let f1 = emit (Get_utxo address') f
      in case get_utxo address' of
           Inl e \<Rightarrow> (Inl e, f1)
         | Inr txids \<Rightarrow> (Inr (), foldl (\<lambda>f' txid. add_utxo address' txid f') f1 txids))"

definition is_running :: "'db fetcher \<Rightarrow> bool \<times> 'db fetcher" where
  "is_running f = (running f, emit Lock_release (emit Lock_acquire f))"

text \<open>
  The \<^verbatim>\<open>for\<close> loop of \<^verbatim>\<open>thread_loop\<close> over the snapshot: it runs to its end, or
  returns from \<^verbatim>\<open>thread_loop\<close> when the flag is down, or a scan raises and the
  exception leaves the loop.
\<close>

datatype sweep_end = Swept | Returned | Raised error

fun scan_snapshot ::
  "(string \<Rightarrow> error + string list) \<Rightarrow> string list \<Rightarrow> 'db fetcher \<Rightarrow> sweep_end \<times> 'db fetcher" where
  "scan_snapshot get_utxo [] f = (Swept, f)"
| "scan_snapshot get_utxo (address' # rest) f =
     (let (r, f1) = is_running f
      in if \<not> r then (Returned, f1)
         else (case scan_address get_utxo address' f1 of
                 (Inl e, f2) \<Rightarrow> (Raised e, f2)
               | (Inr u, f2) \<Rightarrow> scan_snapshot get_utxo rest f2))"

text \<open>
  One pass of the body of \<^verbatim>\<open>while self.is_running()\<close>: the \<^verbatim>\<open>try\<close> statement,
  whose handler prints the exception, then (in \<^verbatim>\<open>ServerUTXOFetcher\<close>) \<^verbatim>\<open>update()\<close>,
  then the wait.
\<close>

datatype loop_step = Next_iteration | Thread_exit

definition try_sweep ::
  "(string \<Rightarrow> error + string list) \<Rightarrow> 'db fetcher \<Rightarrow> loop_step \<times> 'db fetcher" where
  "try_sweep get_utxo f =
     (let f1 = emit Lock_release (emit Lock_acquire f);
          snapshot = address_list f1
      in case scan_snapshot get_utxo snapshot f1 of
           (Returned, f2) \<Rightarrow> (Thread_exit, f2)
         | (Swept, f2) \<Rightarrow> (Next_iteration, f2)
         | (Raised e, f2) \<Rightarrow> (Next_iteration, emit (Print e) f2))"


definition server_thread_loop_body ::
  "externals \<Rightarrow> (nat \<Rightarrow> nat) \<Rightarrow> ('db \<Rightarrow> string \<Rightarrow> bool \<times> 'db) \<Rightarrow> manager
     \<Rightarrow> (string \<Rightarrow> error + string list) \<Rightarrow> 'db fetcher \<Rightarrow> loop_step \<times> 'db fetcher" where
  "server_thread_loop_body ext rank add_tx_by_hash wam get_utxo f =
     (case try_sweep get_utxo f of
        (Thread_exit, f1) \<Rightarrow> (Thread_exit, f1)
      | (Next_iteration, f1) \<Rightarrow>
          (Next_iteration, emit Stop_evt_wait (snd (update ext rank add_tx_by_hash wam f1))))"




fun server_worker_loop ::
  "nat \<Rightarrow> externals \<Rightarrow> (nat \<Rightarrow> nat) \<Rightarrow> ('db \<Rightarrow> string \<Rightarrow> bool \<times> 'db) \<Rightarrow> manager
     \<Rightarrow> (string \<Rightarrow> error + string list) \<Rightarrow> 'db fetcher \<Rightarrow> 'db fetcher option" where
  "server_worker_loop 0 ext rank add_tx_by_hash wam get_utxo f = None"
| "server_worker_loop (Suc n) ext rank add_tx_by_hash wam get_utxo f =
     (let (r, f1) = is_running f
      in if \<not> r then Some f1
         else (case server_thread_loop_body ext rank add_tx_by_hash wam get_utxo f1 of
                 (Thread_exit, f2) \<Rightarrow> Some f2
               | (Next_iteration, f2) \<Rightarrow>
                   server_worker_loop n ext rank add_tx_by_hash wam get_utxo f2))"

definition server_thread_loop ::
  "nat \<Rightarrow> externals \<Rightarrow> (nat \<Rightarrow> nat) \<Rightarrow> ('db \<Rightarrow> string \<Rightarrow> bool \<times> 'db) \<Rightarrow> manager
     \<Rightarrow> (string \<Rightarrow> error + string list) \<Rightarrow> 'db fetcher \<Rightarrow> 'db fetcher option" where
  "server_thread_loop n ext rank add_tx_by_hash wam get_utxo f =
     server_worker_loop n ext rank add_tx_by_hash wam get_utxo
       (emit Lock_release ((emit Lock_acquire f)\<lparr>running := True\<rparr>))"





section \<open>Concrete inputs\<close>

text \<open>An order of iteration of the set of records: the one in which they were added.\<close>

definition insertion_rank :: "nat \<Rightarrow> nat" where
  "insertion_rank r = r"

text \<open>
  Small stand-ins for the primitives, a color map of two colors, the configuration of a
  new wallet and the manager built from it, a run of steps (two genesis addresses, one
  bound to a color, a binding that fails, three allocations), three requests, a wallet
  with one genesis address, and a fetcher with three addresses whose backend fails on the
  second.
\<close>

definition example_externals :: externals where
  "example_externals =
     \<lparr>hmac_sha256 = (\<lambda>k m. k @ m), from_bytes_32 = (\<lambda>s. sum_list (map of_char s)),
      BasePoint_times = (\<lambda>k. (k, Suc k)),
      public_pair_to_bitcoin_address = (\<lambda>p pre. pre @ str_nat (fst p)),
      addressprefix = (\<lambda>tn. if tn then ''m'' else ''1''),
      descriptor_digest = (\<lambda>S. [card S, if ''red'' \<in> S then 1 else 0]),
      loose_address = (\<lambda>d tn. d)\<rparr>"

definition example_colormap :: colormap where
  "example_colormap d = (if d = ''red'' then 1 else if d = ''blue'' then 2 else 0)"

definition fresh_config :: config where
  "fresh_config = \<lparr>cfg_testnet = None, cfg_dwam = None, cfg_dw_master_key = None,
                    cfg_addresses = None\<rparr>"

definition fresh_wallet :: manager where
  "fresh_wallet =
     \<lparr>config = \<lparr>cfg_testnet = None,
                 cfg_dwam = Some \<lparr>dwam_genesis_color_sets = [], dwam_color_set_states = []\<rparr>,
                 cfg_dw_master_key = Some ''5eed'', cfg_addresses = None\<rparr>,
      testnet = False, colormap = example_colormap, addresses = [], master_key = ''5eed'',
      genesis_color_sets = [], color_set_states = [], heap = []\<rparr>"

definition example_steps :: "wallet_op list" where
  "example_steps =
     [Mint_genesis,
      Bind_genesis 0 (ColorSet example_colormap [''red'']),
      Allocate (A_color_set (ColorSet example_colormap [''red''])),
      Mint_genesis,
      Allocate (A_color_set (ColorSet example_colormap [''blue''])),
      Bind_genesis 0 (ColorSet example_colormap [''blue'']),
      Allocate (AssetDefinition (ColorSet example_colormap [''red'']))]"

definition example_requests :: "asset_or_color_set list" where
  "example_requests =
     [A_color_set (ColorSet example_colormap [''red'']),
      A_color_set (ColorSet example_colormap [''blue'']),
      AssetDefinition (ColorSet example_colormap [''red''])]"

definition minted_wallet :: manager where
  "minted_wallet = snd (get_new_genesis_address example_externals fresh_wallet)"




section \<open>Scope tags and derivation: proofs\<close>

lemma hex_digit_in: "hex_digit n \<in> set ''0123456789abcdef''"
proof -
  have "n mod 16 < length ''0123456789abcdef''" by simp
  then show ?thesis unfolding hex_digit_def by (rule nth_mem)
qed

lemma hexdigest_chars: "set (hexdigest bs) \<subseteq> set ''0123456789abcdef''"
  unfolding hexdigest_def using hex_digit_in by (induction bs) auto

lemma hexdigest_not_marker: "hexdigest bs \<noteq> ''genesis block''"
proof
  assume "hexdigest bs = ''genesis block''"
  then have "CHR ''g'' \<in> set (hexdigest bs)" by simp
  with hexdigest_chars [of bs] show False by auto
qed

text \<open>
  C7. The scope tag of a derivation is the genesis marker "genesis block" exactly when
  the color set's descriptor list is empty, and the color set's hash string otherwise;
  the message of the HMAC is that tag, a bar and the index; and no color set's hash
  string equals the genesis marker.
\<close>

theorem genesis_scope_isolation:
  "(color_string ext cs = ''genesis block'') = (get_data cs = []) \<and>
   color_string ext cs = (if get_data cs = [] then ''genesis block'' else get_hash_string ext cs) \<and>
   snd (hmac (DeterministicAddressRecord ext key cs idx tn))
     = color_string ext cs @ ''|'' @ str_int idx \<and>
   get_hash_string ext cs \<noteq> ''genesis block''"
  by (simp add: color_string_def DeterministicAddressRecord_def get_hash_string_def
      hexdigest_not_marker)


lemma derived_from_init:
  "derived_from ext key cs idx tn (DeterministicAddressRecord ext key cs idx tn)"
  by (simp add: derived_from_def DeterministicAddressRecord_def)

lemma rawPrivKey_derived:
  assumes "derived_from ext key cs idx tn r"
  shows "fst (rawPrivKey ext r) = derive_scalar ext key cs idx"
    and "derived_from ext key cs idx tn (snd (rawPrivKey ext r))"
  using assms
  by (cases "memo_rawPrivKey r";
      simp add: derived_from_def rawPrivKey_def derive_scalar_def Let_def)+

lemma publicPoint_derived:
  assumes "derived_from ext key cs idx tn r"
  shows "fst (publicPoint ext r) = derive_point ext key cs idx"
    and "derived_from ext key cs idx tn (snd (publicPoint ext r))"
proof -
  let ?r1 = "snd (rawPrivKey ext r)"
  note k = rawPrivKey_derived [OF assms]
  show "fst (publicPoint ext r) = derive_point ext key cs idx"
    using assms k(1)
    by (cases "memo_publicPoint r")
       (simp_all add: publicPoint_def derived_from_def derive_point_def split_beta Let_def)
  show "derived_from ext key cs idx tn (snd (publicPoint ext r))"
  proof (cases "memo_publicPoint r")
    case None
    then have "snd (publicPoint ext r)
        = ?r1\<lparr>memo_publicPoint := Some (derive_point ext key cs idx)\<rparr>"
      using k(1) by (simp add: publicPoint_def derive_point_def split_beta Let_def)
    with k(2) show ?thesis by (simp add: derived_from_def)
  next
    case (Some p)
    with assms show ?thesis by (simp add: publicPoint_def)
  qed
qed

lemma address_derived:
  assumes "derived_from ext key cs idx tn r"
  shows "fst (address ext r) = derive_address ext key cs idx tn"
    and "derived_from ext key cs idx tn (snd (address ext r))"
proof -
  let ?r1 = "snd (publicPoint ext r)"
  note p = publicPoint_derived [OF assms]
  from p(2) have tn: "rec_testnet ?r1 = tn" by (simp add: derived_from_def)
  show "fst (address ext r) = derive_address ext key cs idx tn"
    using assms p(1) tn
    by (cases "memo_address r")
       (simp_all add: address_def derived_from_def derive_address_def split_beta Let_def)
  show "derived_from ext key cs idx tn (snd (address ext r))"
  proof (cases "memo_address r")
    case None
    then have "snd (address ext r)
        = ?r1\<lparr>memo_address := Some (derive_address ext key cs idx tn)\<rparr>"
      using p(1) tn by (simp add: address_def derive_address_def split_beta Let_def)
    with p(2) show ?thesis by (simp add: derived_from_def)
  next
    case (Some a)
    with assms show ?thesis by (simp add: address_def)
  qed
qed

lemma perform_derived:
  assumes "derived_from ext key cs idx tn r"
  shows "fst (perform ext a r) = eager ext key cs idx tn a"
    and "derived_from ext key cs idx tn (snd (perform ext a r))"
proof -
  show "fst (perform ext a r) = eager ext key cs idx tn a"
    using rawPrivKey_derived(1) [OF assms] publicPoint_derived(1) [OF assms]
      address_derived(1) [OF assms]
    by (cases a) (simp_all add: perform_def eager_def split_beta)
  show "derived_from ext key cs idx tn (snd (perform ext a r))"
  proof (cases a)
    case (Rebind cs')
    with assms show ?thesis by (simp add: perform_def derived_from_def)
  qed (use rawPrivKey_derived(2) [OF assms] publicPoint_derived(2) [OF assms]
      address_derived(2) [OF assms] in \<open>simp_all add: perform_def split_beta\<close>)
qed

lemma perform_all_derived:
  "derived_from ext key cs idx tn r \<Longrightarrow>
   fst (perform_all ext as r) = map (eager ext key cs idx tn) as"
proof (induction as arbitrary: r)
  case Nil
  then show ?case by simp
next
  case (Cons a as)
  from perform_derived [OF Cons.prems, of a] Cons.IH [of "snd (perform ext a r)"]
  show ?case by (simp add: split_beta)
qed

theorem derivation_deterministic:
  "fst (perform_all ext as (DeterministicAddressRecord ext key cs idx tn))
     = map (eager ext key cs idx tn) as"
  by (rule perform_all_derived [OF derived_from_init])

section \<open>Genesis rebinding\<close>

lemma update_genesis_address_cases:
  assumes "addr < length (heap m)"
  shows "(\<exists>m'. update_genesis_address m addr cs = Inl (AssertionError, m'))
           = (color_id_set (get_color_set (heap m ! addr)) \<noteq> {})"
  using assms
  by (auto simp: update_genesis_address_def Let_def split: option.splits)

lemma get_color_set_with: "get_color_set (with_color_set cs obj) = cs"
  by (cases obj) (simp_all add: get_color_set_def with_color_set_def)

lemma get_index_with: "get_index (with_color_set cs obj) = get_index obj"
  by (cases obj) (simp_all add: get_index_def with_color_set_def)

lemma update_genesis_address_heap:
  "update_genesis_address m addr cs = Inr m' \<Longrightarrow> length (heap m') = length (heap m)"
  by (auto simp: update_genesis_address_def set_color_set_def update_config_def Let_def
      split: if_splits option.splits)

text \<open>
  C9. For an address record, \<^verbatim>\<open>update_genesis_address\<close> fails with AssertionError if
  and only if the record's color set has a color id; it then leaves the state as it was.
  When it succeeds, the record carries the new color set, the slot of the genesis registry
  at the record's index holds the new descriptor, the counters are untouched and the
  configuration holds the updated registry.
\<close>

theorem genesis_rebinding_precondition:
  assumes "addr < length (heap m)"
  shows "(\<exists>m'. update_genesis_address m addr cs = Inl (AssertionError, m'))
           = (color_id_set (get_color_set (heap m ! addr)) \<noteq> {}) \<and>
         (color_id_set (get_color_set (heap m ! addr)) \<noteq> {} \<longrightarrow>
            update_genesis_address m addr cs = Inl (AssertionError, m)) \<and>
         (\<forall>m'. update_genesis_address m addr cs = Inr m' \<longrightarrow>
            get_color_set (heap m' ! addr) = cs \<and>
            (\<exists>i. get_index (heap m ! addr) = Some i \<and>
                 list_setitem (genesis_color_sets m) i (get_data cs) = Some (genesis_color_sets m')) \<and>
            color_set_states m' = color_set_states m \<and>
            cfg_dwam (config m') = Some \<lparr>dwam_genesis_color_sets = genesis_color_sets m',
                                          dwam_color_set_states = color_set_states m'\<rparr>)"
proof (intro conjI allI impI)
  show "(\<exists>m'. update_genesis_address m addr cs = Inl (AssertionError, m'))
           = (color_id_set (get_color_set (heap m ! addr)) \<noteq> {})"
    by (rule update_genesis_address_cases [OF assms])
next
  assume "color_id_set (get_color_set (heap m ! addr)) \<noteq> {}"
  with assms show "update_genesis_address m addr cs = Inl (AssertionError, m)"
    by (simp add: update_genesis_address_def)
next
  fix m' assume ok: "update_genesis_address m addr cs = Inr m'"
  let ?m1 = "set_color_set addr cs m"
  from ok assms have colorless: "color_id_set (get_color_set (heap m ! addr)) = {}"
    by (auto simp: update_genesis_address_def split: if_splits)
  have h1: "heap ?m1 ! addr = with_color_set cs (heap m ! addr)"
    using assms by (simp add: set_color_set_def)
  have g1: "genesis_color_sets ?m1 = genesis_color_sets m"
    and s1: "color_set_states ?m1 = color_set_states m"
    by (simp_all add: set_color_set_def)
  from ok assms colorless obtain i g where
    i: "get_index (heap m ! addr) = Some i"
    and g: "list_setitem (genesis_color_sets m) i (get_data cs) = Some g"
    and m': "m' = update_config (?m1\<lparr>genesis_color_sets := g\<rparr>)"
    by (auto simp: update_genesis_address_def Let_def h1 g1 get_index_with split: option.splits)
  show "get_color_set (heap m' ! addr) = cs"
    by (simp add: m' update_config_def h1 get_color_set_with)
  show "\<exists>i. get_index (heap m ! addr) = Some i \<and>
          list_setitem (genesis_color_sets m) i (get_data cs) = Some (genesis_color_sets m')"
    using i g by (simp add: m' update_config_def)
  show "color_set_states m' = color_set_states m"
    by (simp add: m' update_config_def s1)
  show "cfg_dwam (config m') = Some \<lparr>dwam_genesis_color_sets = genesis_color_sets m',
                                          dwam_color_set_states = color_set_states m'\<rparr>"
    by (simp add: m' update_config_def)
qed

theorem genesis_rebinding_precondition_witness:
  "0 < length (heap minted_wallet) \<and>
   color_id_set (get_color_set (heap minted_wallet ! 0)) = {} \<and>
   (\<exists>m'. update_genesis_address minted_wallet 0 (ColorSet example_colormap [''red'']) = Inr m' \<and>
         get_color_set (heap m' ! 0) = ColorSet example_colormap [''red''] \<and>
         genesis_color_sets m' = [[''red'']] \<and>
         cfg_dwam (config m') = Some \<lparr>dwam_genesis_color_sets = [[''red'']],
                                       dwam_color_set_states = []\<rparr> \<and>
         update_genesis_address m' 0 (ColorSet example_colormap [''blue'']) = Inl (AssertionError, m'))"
proof -
  let ?red = "ColorSet example_colormap [''red'']"
  have minted: "minted_wallet = fresh_wallet
      \<lparr>config := (config fresh_wallet)\<lparr>cfg_dwam :=
          Some \<lparr>dwam_genesis_color_sets = [[]], dwam_color_set_states = []\<rparr>\<rparr>,
       genesis_color_sets := [[]], addresses := [0],
       heap := [Deterministic (DeterministicAddressRecord example_externals ''5eed''
                  (ColorSet example_colormap []) 0 False)]\<rparr>"
    by (simp add: minted_wallet_def get_new_genesis_address_def get_genesis_address_def
        new_object_def addresses_add_def update_config_def fresh_wallet_def Let_def)
  have len: "0 < length (heap minted_wallet)" by (simp add: minted)
  have colorless: "color_id_set (get_color_set (heap minted_wallet ! 0)) = {}"
    by (simp add: minted get_color_set_def DeterministicAddressRecord_def ColorSet_def)
  note inst = genesis_rebinding_precondition [OF len, of ?red]
  from inst colorless have "\<not> (\<exists>m'. update_genesis_address minted_wallet 0 ?red
      = Inl (AssertionError, m'))" by simp
  have "\<exists>m'. update_genesis_address minted_wallet 0 ?red = Inr m'"
    using colorless
    by (simp add: update_genesis_address_def len)
       (simp add: minted set_color_set_def get_index_def with_color_set_def
          DeterministicAddressRecord_def list_setitem_def Let_def)
  then obtain m' where ok: "update_genesis_address minted_wallet 0 ?red = Inr m'" by blast
  with inst have bound: "get_color_set (heap m' ! 0) = ?red"
    and slot: "\<exists>i. get_index (heap minted_wallet ! 0) = Some i \<and>
           list_setitem (genesis_color_sets minted_wallet) i (get_data ?red)
             = Some (genesis_color_sets m')"
    and states: "color_set_states m' = color_set_states minted_wallet"
    and persisted: "cfg_dwam (config m') = Some \<lparr>dwam_genesis_color_sets = genesis_color_sets m',
                                          dwam_color_set_states = color_set_states m'\<rparr>"
    by blast+
  from slot have g: "genesis_color_sets m' = [[''red'']]"
    by (auto simp: minted get_index_def DeterministicAddressRecord_def list_setitem_def
        get_data_def ColorSet_def Let_def)
  from states have s: "color_set_states m' = []" by (simp add: minted fresh_wallet_def)
  have "length (heap m') = length (heap minted_wallet)"
    using ok by (rule update_genesis_address_heap)
  with len have len': "0 < length (heap m')" by simp
  from bound have "color_id_set (get_color_set (heap m' ! 0)) \<noteq> {}"
    by (simp add: ColorSet_def)
  with genesis_rebinding_precondition [OF len', of "ColorSet example_colormap [''blue'']"]
  have again: "update_genesis_address m' 0 (ColorSet example_colormap [''blue''])
      = Inl (AssertionError, m')" by blast
  from len colorless ok bound g persisted s again show ?thesis by simp
qed

section \<open>Allocation counters\<close>

lemma find_state_cong: "equals cs' cs \<Longrightarrow> find_state cm cs' sts = find_state cm cs sts"
  by (simp add: find_state_def equals_def)

lemma increment_loop_None: "(increment_loop cm cs sts = None) = (find_state cm cs sts = None)"
  by (induction sts) (simp_all add: find_state_def Let_def)

lemma increment_loop_Some:
  "find_state cm cs sts = Some st \<Longrightarrow>
   \<exists>sts'. increment_loop cm cs sts = Some (st_max_index st + 1, sts') \<and>
     find_state cm cs sts' = Some (st\<lparr>st_max_index := st_max_index st + 1\<rparr>) \<and>
     (\<forall>cs'. \<not> equals cs' cs \<longrightarrow> find_state cm cs' sts' = find_state cm cs' sts)"
proof (induction sts)
  case Nil
  then show ?case by (simp add: find_state_def)
next
  case (Cons a sts)
  show ?case
  proof (cases "equals (ColorSet cm (st_color_set a)) cs")
    case True
    with Cons.prems have "st = a" by (simp add: find_state_def)
    with True show ?thesis by (auto simp: find_state_def Let_def equals_def)
  next
    case False
    with Cons.prems have "find_state cm cs sts = Some st" by (simp add: find_state_def)
    from Cons.IH [OF this] obtain sts' where
      "increment_loop cm cs sts = Some (st_max_index st + 1, sts')"
      "find_state cm cs sts' = Some (st\<lparr>st_max_index := st_max_index st + 1\<rparr>)"
      "\<forall>cs'. \<not> equals cs' cs \<longrightarrow> find_state cm cs' sts' = find_state cm cs' sts"
      by blast
    with False show ?thesis by (simp add: find_state_def Let_def)
  qed
qed

lemma find_state_append:
  "find_state cm cs (sts @ [st]) =
     (case find_state cm cs sts of
        Some s \<Rightarrow> Some s
      | None \<Rightarrow> if equals (ColorSet cm (st_color_set st)) cs then Some st else None)"
  by (induction sts) (simp_all add: find_state_def)

lemma equals_ColorSet_data:
  "well_formed cm cs \<Longrightarrow> equals (ColorSet cm (get_data cs)) cs' = equals cs cs'"
  by (simp add: well_formed_def equals_def ColorSet_def)

lemma increment_fields:
  "colormap (snd (increment_max_index_for_color_set m cs)) = colormap m"
  "heap (snd (increment_max_index_for_color_set m cs)) = heap m"
  "addresses (snd (increment_max_index_for_color_set m cs)) = addresses m"
  "master_key (snd (increment_max_index_for_color_set m cs)) = master_key m"
  "testnet (snd (increment_max_index_for_color_set m cs)) = testnet m"
  "genesis_color_sets (snd (increment_max_index_for_color_set m cs)) = genesis_color_sets m"
  "config (snd (increment_max_index_for_color_set m cs)) = config m"
  by (simp_all add: increment_max_index_for_color_set_def split: option.splits prod.splits)

lemma increment_counter:
  assumes wf: "well_formed (colormap m) cs"
  shows "fst (increment_max_index_for_color_set m cs)
           = counter (colormap m) cs (color_set_states m) + 1"
    and "find_state (colormap m) cs (color_set_states (snd (increment_max_index_for_color_set m cs)))
           \<noteq> None"
    and "counter (colormap m) cs (color_set_states (snd (increment_max_index_for_color_set m cs)))
           = counter (colormap m) cs (color_set_states m) + 1"
    and "\<not> equals cs' cs \<Longrightarrow>
         find_state (colormap m) cs' (color_set_states (snd (increment_max_index_for_color_set m cs)))
           = find_state (colormap m) cs' (color_set_states m)"
proof -
  let ?cm = "colormap m" and ?sts = "color_set_states m"
  let ?r = "increment_max_index_for_color_set m cs"
  have all: "fst ?r = counter ?cm cs ?sts + 1 \<and>
      find_state ?cm cs (color_set_states (snd ?r)) \<noteq> None \<and>
      counter ?cm cs (color_set_states (snd ?r)) = counter ?cm cs ?sts + 1 \<and>
      (\<not> equals cs' cs \<longrightarrow>
         find_state ?cm cs' (color_set_states (snd ?r)) = find_state ?cm cs' ?sts)"
  proof (cases "find_state ?cm cs ?sts")
    case None
    then have loop: "increment_loop ?cm cs ?sts = None" by (simp add: increment_loop_None)
    have self: "equals (ColorSet ?cm (get_data cs)) cs"
      using wf by (simp add: equals_ColorSet_data) (simp add: equals_def)
    have other: "\<not> equals cs' cs \<Longrightarrow> \<not> equals (ColorSet ?cm (get_data cs)) cs'"
      using wf by (simp add: equals_ColorSet_data) (auto simp: equals_def)
    show ?thesis
      using None loop self other
      by (auto simp: increment_max_index_for_color_set_def counter_def find_state_append
          split: option.splits)
  next
    case (Some st)
    from increment_loop_Some [OF Some] obtain sts' where
      l: "increment_loop ?cm cs ?sts = Some (st_max_index st + 1, sts')"
      and f: "find_state ?cm cs sts' = Some (st\<lparr>st_max_index := st_max_index st + 1\<rparr>)"
      and o: "\<forall>cs'. \<not> equals cs' cs \<longrightarrow> find_state ?cm cs' sts' = find_state ?cm cs' ?sts"
      by blast
    show ?thesis
      using Some l f o by (simp add: increment_max_index_for_color_set_def counter_def)
  qed
  from all show "fst ?r = counter ?cm cs ?sts + 1" by blast
  from all show "find_state ?cm cs (color_set_states (snd ?r)) \<noteq> None" by blast
  from all show "counter ?cm cs (color_set_states (snd ?r)) = counter ?cm cs ?sts + 1" by blast
  assume "\<not> equals cs' cs"
  with all show "find_state ?cm cs' (color_set_states (snd ?r)) = find_state ?cm cs' ?sts" by blast
qed

lemma get_new_address_unfold:
  "get_new_address ext m q =
     (let cs = resolve_color_set q;
          r = increment_max_index_for_color_set m cs;
          m1 = snd r;
          obj = Deterministic (DeterministicAddressRecord ext (master_key m) cs (fst r) (testnet m))
      in (length (heap m),
          update_config (addresses_add (length (heap m)) (m1\<lparr>heap := heap m @ [obj]\<rparr>))))"
  by (simp add: get_new_address_def new_object_def split_beta Let_def increment_fields)

lemma get_new_address_fields:
  "colormap (snd (get_new_address ext m q)) = colormap m"
  "master_key (snd (get_new_address ext m q)) = master_key m"
  "testnet (snd (get_new_address ext m q)) = testnet m"
  "genesis_color_sets (snd (get_new_address ext m q)) = genesis_color_sets m"
  "color_set_states (snd (get_new_address ext m q))
     = color_set_states (snd (increment_max_index_for_color_set m (resolve_color_set q)))"
  "fst (get_new_address ext m q) = length (heap m)"
  "heap (snd (get_new_address ext m q))
     = heap m @ [Deterministic (DeterministicAddressRecord ext (master_key m) (resolve_color_set q)
         (fst (increment_max_index_for_color_set m (resolve_color_set q))) (testnet m))]"
  "cfg_dwam (config (snd (get_new_address ext m q)))
     = Some \<lparr>dwam_genesis_color_sets = genesis_color_sets m,
             dwam_color_set_states = color_set_states (snd (get_new_address ext m q))\<rparr>"
  by (simp_all add: get_new_address_unfold Let_def update_config_def addresses_add_def
      increment_fields)

lemma get_new_address_seen:
  assumes wf: "well_formed (colormap m) (resolve_color_set q)"
  shows "get_index (heap (snd (get_new_address ext m q)) ! fst (get_new_address ext m q))
           = Some (counter (colormap m) (resolve_color_set q) (color_set_states m) + 1)"
    and "persisted_max_index (colormap m) (config (snd (get_new_address ext m q))) (resolve_color_set q)
           = Some (counter (colormap m) (resolve_color_set q) (color_set_states m) + 1)"
proof -
  note inc = increment_counter [OF wf]
  show "get_index (heap (snd (get_new_address ext m q)) ! fst (get_new_address ext m q))
           = Some (counter (colormap m) (resolve_color_set q) (color_set_states m) + 1)"
    by (simp add: get_new_address_fields get_index_def DeterministicAddressRecord_def inc(1))
  from inc(2) inc(3)
  show "persisted_max_index (colormap m) (config (snd (get_new_address ext m q))) (resolve_color_set q)
           = Some (counter (colormap m) (resolve_color_set q) (color_set_states m) + 1)"
    by (auto simp: persisted_max_index_def get_new_address_fields counter_def split: option.splits)
qed

lemma counter_cong: "equals cs' cs \<Longrightarrow> counter cm cs' sts = counter cm cs sts"
  by (simp add: counter_def find_state_cong)

lemma equals_sym: "equals a b = equals b a"
  by (auto simp: equals_def)

lemma allocation_run_counts:
  assumes "\<forall>q\<in>set qs. well_formed (colormap m) (resolve_color_set q)"
  shows "map snd (filter (\<lambda>(q, seen). equals (resolve_color_set q) cs)
                   (zip qs (fst (allocation_run ext m qs))))
       = map (\<lambda>n. (Some (counter (colormap m) cs (color_set_states m) + 1 + int n),
                    Some (counter (colormap m) cs (color_set_states m) + 1 + int n)))
           [0..<length (filter (\<lambda>q. equals (resolve_color_set q) cs) qs)]"
  using assms
proof (induction qs arbitrary: m)
  case Nil
  then show ?case by simp
next
  case (Cons q qs)
  let ?m1 = "snd (get_new_address ext m q)"
  let ?c = "counter (colormap m) cs (color_set_states m)"
  from Cons.prems have wfq: "well_formed (colormap m) (resolve_color_set q)"
    and wfqs: "\<forall>q\<in>set qs. well_formed (colormap ?m1) (resolve_color_set q)"
    by (simp_all add: get_new_address_fields)
  note IH = Cons.IH [OF wfqs]
  note seen = get_new_address_seen [OF wfq, of ext]
  note inc = increment_counter [OF wfq]
  show ?case
  proof (cases "equals (resolve_color_set q) cs")
    case True
    have c1: "counter (colormap ?m1) cs (color_set_states ?m1) = ?c + 1"
      using inc(3) counter_cong [OF True]
      by (simp add: get_new_address_fields counter_def find_state_cong [OF True, symmetric])
    have shift: "[0..<Suc k] = 0 # map Suc [0..<k]" for k
      by (simp add: upt_conv_Cons map_Suc_upt del: upt_Suc)
    show ?thesis
      using True seen IH c1 counter_cong [OF True]
      by (simp add: split_beta get_new_address_fields shift comp_def del: upt_Suc)
  next
    case False
    then have "\<not> equals cs (resolve_color_set q)" by (simp add: equals_sym)
    from inc(4) [OF this]
    have c1: "counter (colormap ?m1) cs (color_set_states ?m1) = ?c"
      by (simp add: get_new_address_fields counter_def)
    show ?thesis
      using False IH c1 by (simp add: split_beta get_new_address_fields)
  qed
qed

lemma example_well_formed: "well_formed example_colormap (ColorSet example_colormap descs)"
  by (simp add: well_formed_def ColorSet_def get_data_def)

text \<open>
  C1. In any run of allocations for color sets of the wallet, starting where a color set
  has no counter, the calls for that color set (or one equal to it) return the indices
  0, 1, 2, ... in order: the N-th returns N - 1. When each of them returns, the
  configuration holds that same number as the maximum of the color set; and after any
  call of \<^verbatim>\<open>get_new_address\<close> the configuration holds the manager's registry and
  counters as they then are.
\<close>

theorem allocation_counter_monotone:
  assumes "\<forall>q\<in>set qs. well_formed (colormap m) (resolve_color_set q)"
    and "find_state (colormap m) cs (color_set_states m) = None"
  shows "map snd (filter (\<lambda>(q, seen). equals (resolve_color_set q) cs)
                   (zip qs (fst (allocation_run ext m qs))))
       = map (\<lambda>n. (Some (int n), Some (int n)))
           [0..<length (filter (\<lambda>q. equals (resolve_color_set q) cs) qs)] \<and>
         cfg_dwam (config (snd (get_new_address ext m' q')))
           = Some \<lparr>dwam_genesis_color_sets = genesis_color_sets (snd (get_new_address ext m' q')),
                   dwam_color_set_states = color_set_states (snd (get_new_address ext m' q'))\<rparr>"
  using allocation_run_counts [OF assms(1), of cs ext] assms(2)
  by (simp add: counter_def get_new_address_fields)

theorem allocation_counter_monotone_witness:
  "list_all (\<lambda>q. well_formed (colormap fresh_wallet) (resolve_color_set q)) example_requests \<and>
   find_state (colormap fresh_wallet) (ColorSet example_colormap [''red''])
     (color_set_states fresh_wallet) = None \<and>
   map snd (filter (\<lambda>(q, seen). equals (resolve_color_set q) (ColorSet example_colormap [''red'']))
             (zip example_requests
                (fst (allocation_run example_externals fresh_wallet example_requests))))
     = [(Some 0, Some 0), (Some 1, Some 1)]"
proof -
  have wf: "list_all (\<lambda>q. well_formed (colormap fresh_wallet) (resolve_color_set q)) example_requests"
    by (simp add: example_requests_def resolve_color_set_def fresh_wallet_def example_well_formed)
  have new: "find_state (colormap fresh_wallet) (ColorSet example_colormap [''red''])
     (color_set_states fresh_wallet) = None"
    by (simp add: fresh_wallet_def find_state_def)
  have count: "map (\<lambda>n. (Some (int n), Some (int n)))
      [0..<length (filter (\<lambda>q. equals (resolve_color_set q) (ColorSet example_colormap [''red'']))
                     example_requests)]
    = [(Some 0, Some 0), (Some 1, Some 1)]"
    by code_simp
  from wf have "\<forall>q\<in>set example_requests. well_formed (colormap fresh_wallet) (resolve_color_set q)"
    by (simp add: list_all_iff)
  from allocation_counter_monotone [OF this new, THEN conjunct1, of example_externals]
    count wf new
  show ?thesis by simp
qed

section \<open>Restart\<close>

lemma address_strings_held: "address_strings ext m = get_address ext ` set (held m)"
  by (simp add: address_strings_def held_def image_image)

lemma same_wallet_refl: "same_wallet m m"
  by (simp add: same_wallet_def)

lemma same_wallet_trans: "same_wallet a b \<Longrightarrow> same_wallet b c \<Longrightarrow> same_wallet a c"
  by (simp add: same_wallet_def)

lemma get_address_new:
  "get_address ext (Deterministic (DeterministicAddressRecord ext key cs idx tn))
     = derive_address ext key cs idx tn"
  using address_derived(1) [OF derived_from_init] by (simp add: get_address_def)

lemma get_address_rebound:
  "get_address ext (with_color_set cs' (Deterministic (DeterministicAddressRecord ext key cs idx tn)))
     = derive_address ext key cs idx tn"
proof -
  have "derived_from ext key cs idx tn
          ((DeterministicAddressRecord ext key cs idx tn)\<lparr>color_set := cs'\<rparr>)"
    using derived_from_init [of ext key cs idx tn] by (simp add: derived_from_def)
  from address_derived(1) [OF this] show ?thesis
    by (simp add: get_address_def with_color_set_def)
qed

lemma add_new_object:
  fixes obj :: address_object
  assumes "refs_ok m"
  defines "m' \<equiv> addresses_add (length (heap m)) (m\<lparr>heap := heap m @ [obj]\<rparr>)"
  shows "held m' = held m @ [obj]" and "refs_ok m'" and "same_wallet m m'"
proof -
  from assms(1) have fresh: "length (heap m) \<notin> set (addresses m)"
    by (auto simp: refs_ok_def)
  then have m': "m' = m\<lparr>heap := heap m @ [obj], addresses := addresses m @ [length (heap m)]\<rparr>"
    by (simp add: m'_def addresses_add_def)
  have "map ((!) (heap m @ [obj])) (addresses m) = map ((!) (heap m)) (addresses m)"
    using assms(1) by (simp add: refs_ok_def nth_append)
  then show "held m' = held m @ [obj]" by (simp add: m' held_def)
  from assms(1) show "refs_ok m'" by (auto simp: m' refs_ok_def)
  show "same_wallet m m'" by (simp add: m' same_wallet_def)
qed

lemma add_rebound_object:
  fixes obj :: address_object and cs :: colorset
  assumes "refs_ok m"
  defines "m' \<equiv> addresses_add (length (heap m))
                   (set_color_set (length (heap m)) cs (m\<lparr>heap := heap m @ [obj]\<rparr>))"
  shows "held m' = held m @ [with_color_set cs obj]" and "refs_ok m'" and "same_wallet m m'"
proof -
  have "set_color_set (length (heap m)) cs (m\<lparr>heap := heap m @ [obj]\<rparr>)
          = m\<lparr>heap := heap m @ [with_color_set cs obj]\<rparr>"
    by (simp add: set_color_set_def)
  then have "m' = addresses_add (length (heap m)) (m\<lparr>heap := heap m @ [with_color_set cs obj]\<rparr>)"
    by (simp add: m'_def)
  with add_new_object [OF assms(1), of "with_color_set cs obj"]
  show "held m' = held m @ [with_color_set cs obj]" and "refs_ok m'" and "same_wallet m m'"
    by simp_all
qed

lemma import_indices_held:
  "refs_ok m \<Longrightarrow>
   held (import_indices ext cs idxs m)
     = held m @ map (\<lambda>idx. Deterministic
                       (DeterministicAddressRecord ext (master_key m) cs idx (testnet m))) idxs \<and>
   refs_ok (import_indices ext cs idxs m) \<and> same_wallet m (import_indices ext cs idxs m)"
proof (induction idxs arbitrary: m)
  case Nil
  then show ?case by (simp add: same_wallet_refl)
next
  case (Cons idx idxs)
  let ?obj = "Deterministic (DeterministicAddressRecord ext (master_key m) cs idx (testnet m))"
  let ?m1 = "addresses_add (length (heap m)) (m\<lparr>heap := heap m @ [?obj]\<rparr>)"
  note a = add_new_object [OF Cons.prems, of ?obj]
  from Cons.IH [OF a(2)] a(1) a(3)
  show ?case
    by (auto simp: new_object_def same_wallet_def)
qed

lemma import_genesis_loop_held:
  "refs_ok m \<Longrightarrow>
   held (import_genesis_loop ext ps m)
     = held m @ map (\<lambda>(i, descs). with_color_set (ColorSet (colormap m) descs)
                       (Deterministic (DeterministicAddressRecord ext (master_key m)
                          (ColorSet (colormap m) []) (int i) (testnet m)))) ps \<and>
   refs_ok (import_genesis_loop ext ps m) \<and> same_wallet m (import_genesis_loop ext ps m)"
proof (induction ps arbitrary: m)
  case Nil
  then show ?case by (simp add: same_wallet_refl)
next
  case (Cons p ps)
  obtain i descs where p: "p = (i, descs)" by (cases p)
  let ?obj = "Deterministic (DeterministicAddressRecord ext (master_key m)
                (ColorSet (colormap m) []) (int i) (testnet m))"
  note a = add_rebound_object [OF Cons.prems, of "ColorSet (colormap m) descs" ?obj]
  from Cons.IH [OF a(2)] a(1) a(3)
  show ?case
    by (auto simp: p get_genesis_address_def new_object_def same_wallet_def)
qed

lemma import_states_held:
  "refs_ok m \<Longrightarrow>
   held (import_states ext sts m)
     = held m @ concat (map (\<lambda>st. map (\<lambda>idx. Deterministic
                 (DeterministicAddressRecord ext (master_key m)
                    (ColorSet (colormap m) (st_color_set st)) idx (testnet m)))
                 (xrange (st_max_index st + 1))) sts) \<and>
   refs_ok (import_states ext sts m) \<and> same_wallet m (import_states ext sts m)"
proof (induction sts arbitrary: m)
  case Nil
  then show ?case by (simp add: same_wallet_refl)
next
  case (Cons st sts)
  let ?m1 = "import_indices ext (ColorSet (colormap m) (st_color_set st))
               (xrange (st_max_index st + 1)) m"
  note a = import_indices_held [OF Cons.prems, of ext "ColorSet (colormap m) (st_color_set st)"
      "xrange (st_max_index st + 1)"]
  from a have ok: "refs_ok ?m1" by simp
  from Cons.IH [OF ok] a
  show ?case
    by (auto simp: Let_def same_wallet_def)
qed

lemma expected_strings_cong:
  "same_wallet m m' \<Longrightarrow> expected_strings ext m' = expected_strings ext m"
  by (simp add: expected_strings_def same_wallet_def)


lemma import_one_off_none:
  "cfg_addresses (config m) = None \<or> cfg_addresses (config m) = Some [] \<Longrightarrow>
   import_one_off_addresses_from_config m = Inr m"
  by (auto simp: import_one_off_addresses_from_config_def)

lemma genesis_part:
  "get_address ext `
     set (map (\<lambda>(i, descs). with_color_set (ColorSet cm descs)
                 (Deterministic (DeterministicAddressRecord ext key (ColorSet cm []) (int i) tn)))
            (enumerate 0 G))
   = (\<lambda>i. derive_address ext key (ColorSet cm []) (int i) tn) ` {..<length G}"
proof -
  have "fst ` set (enumerate 0 G) = set (map fst (enumerate 0 G))"
    by (simp only: set_map)
  also have "\<dots> = {..<length G}"
    by (simp only: map_fst_enumerate set_upt add_0 atLeast0LessThan)
  finally have firsts: "fst ` set (enumerate 0 G) = {..<length G}" .
  have "get_address ext `
     set (map (\<lambda>(i, descs). with_color_set (ColorSet cm descs)
                 (Deterministic (DeterministicAddressRecord ext key (ColorSet cm []) (int i) tn)))
            (enumerate 0 G))
     = (\<lambda>i. derive_address ext key (ColorSet cm []) (int i) tn) ` (fst ` set (enumerate 0 G))"
    by (simp add: image_image split_beta get_address_rebound)
  with firsts show ?thesis by simp
qed

lemma states_part:
  "get_address ext `
     set (concat (map (\<lambda>st. map (\<lambda>idx. Deterministic
                 (DeterministicAddressRecord ext key (ColorSet cm (st_color_set st)) idx tn))
                 (xrange (st_max_index st + 1))) sts))
   = (\<Union>st\<in>set sts. state_strings ext cm key tn st)"
  by (simp add: state_strings_def image_UN image_image get_address_new)


lemma materialize:
  fixes ext :: externals
  assumes "addresses m = []"
  defines "m' \<equiv> import_specific_color_addresses ext (import_genesis_addresses ext m)"
  shows "address_strings ext m' = expected_strings ext m" and "refs_ok m'" and "same_wallet m m'"
proof -
  let ?m1 = "import_genesis_addresses ext m"
  from assms(1) have ok: "refs_ok m" and h0: "held m = []"
    by (simp_all add: refs_ok_def held_def)
  note g = import_genesis_loop_held [OF ok, of ext "enumerate 0 (genesis_color_sets m)"]
  from g have ok1: "refs_ok ?m1" and sw1: "same_wallet m ?m1"
    by (simp_all add: import_genesis_addresses_def)
  note s = import_states_held [OF ok1, of ext "color_set_states ?m1"]
  from s have ok2: "refs_ok m'" and sw2: "same_wallet ?m1 m'"
    by (simp_all add: m'_def import_specific_color_addresses_def)
  from ok2 show "refs_ok m'" .
  from sw1 sw2 show "same_wallet m m'" by (rule same_wallet_trans)
  have "held m' = held ?m1 @ concat (map (\<lambda>st. map (\<lambda>idx. Deterministic
                 (DeterministicAddressRecord ext (master_key m)
                    (ColorSet (colormap m) (st_color_set st)) idx (testnet m)))
                 (xrange (st_max_index st + 1))) (color_set_states m))"
    using s sw1 by (simp add: m'_def import_specific_color_addresses_def same_wallet_def)
  moreover have "held ?m1 = map (\<lambda>(i, descs). with_color_set (ColorSet (colormap m) descs)
                       (Deterministic (DeterministicAddressRecord ext (master_key m)
                          (ColorSet (colormap m) []) (int i) (testnet m))))
                    (enumerate 0 (genesis_color_sets m))"
    using g h0 by (simp add: import_genesis_addresses_def)
  ultimately show "address_strings ext m' = expected_strings ext m"
    unfolding address_strings_held expected_strings_def
    by (simp only: set_append image_Un genesis_part states_part)
qed

lemma constructed:
  fixes ext :: externals
  assumes "addresses ms = []"
    and "cfg_addresses (config ms) = None \<or> cfg_addresses (config ms) = Some []"
  shows "import_one_off_addresses_from_config
           (import_specific_color_addresses ext (import_genesis_addresses ext ms))
         = Inr (import_specific_color_addresses ext (import_genesis_addresses ext ms))"
proof -
  from materialize(3) [OF assms(1), of ext] assms(2)
  show ?thesis by (intro import_one_off_none) (simp add: same_wallet_def)
qed

lemma set_xrange: "set (xrange n) = {0..<n}"
proof -
  have "set (xrange n) = int ` {0..<nat n}" by (simp add: xrange_def)
  also have "\<dots> = {0..<n}"
    by (cases "0 \<le> n") (simp_all add: image_int_atLeastLessThan)
  finally show ?thesis .
qed

lemma xrange_next: "- 1 \<le> k \<Longrightarrow> set (xrange (k + 1 + 1)) = insert (k + 1) (set (xrange (k + 1)))"
  by (auto simp: set_xrange)

lemma color_string_same:
  "set (get_data cs) = set (get_data cs') \<Longrightarrow> color_string ext cs = color_string ext cs'"
  by (auto simp: color_string_def get_hash_string_def get_data_def)

lemma derive_address_same:
  "color_string ext cs = color_string ext cs' \<Longrightarrow>
   derive_address ext key cs idx tn = derive_address ext key cs' idx tn"
  by (simp add: derive_address_def derive_point_def derive_scalar_def)

lemma get_data_ColorSet: "get_data (ColorSet cm descs) = descs"
  by (simp add: get_data_def ColorSet_def)

lemma equals_same_descs:
  assumes "inj_on cm D" and "set descs \<subseteq> D" and "set (get_data cs) \<subseteq> D"
    and "well_formed cm cs" and "equals (ColorSet cm descs) cs"
  shows "set descs = set (get_data cs)"
proof -
  from assms(4,5) have "cm ` set descs = cm ` set (get_data cs)"
    by (simp add: well_formed_def equals_def ColorSet_def)
  with inj_on_image_eq_iff [OF assms(1,2,3)] show ?thesis by simp
qed

lemma increment_loop_split:
  "increment_loop cm cs sts = Some (i, sts') \<Longrightarrow>
   \<exists>pre st post. sts = pre @ st # post \<and> sts' = pre @ st\<lparr>st_max_index := i\<rparr> # post \<and>
     i = st_max_index st + 1 \<and> equals (ColorSet cm (st_color_set st)) cs"
proof (induction sts arbitrary: sts')
  case Nil
  then show ?case by simp
next
  case (Cons a sts)
  show ?case
  proof (cases "equals (ColorSet cm (st_color_set a)) cs")
    case True
    with Cons.prems have "i = st_max_index a + 1" "sts' = a\<lparr>st_max_index := i\<rparr> # sts"
      by (auto simp: Let_def)
    with True have "a # sts = [] @ a # sts \<and> sts' = [] @ a\<lparr>st_max_index := i\<rparr> # sts \<and>
        i = st_max_index a + 1 \<and> equals (ColorSet cm (st_color_set a)) cs" by simp
    then show ?thesis by blast
  next
    case False
    with Cons.prems obtain r where r: "increment_loop cm cs sts = Some (i, r)" and s: "sts' = a # r"
      by (auto simp: Let_def)
    from Cons.IH [OF r] obtain pre st post where
      "sts = pre @ st # post" "r = pre @ st\<lparr>st_max_index := i\<rparr> # post"
      "i = st_max_index st + 1" "equals (ColorSet cm (st_color_set st)) cs" by blast
    with s have "a # sts = (a # pre) @ st # post \<and> sts' = (a # pre) @ st\<lparr>st_max_index := i\<rparr> # post \<and>
        i = st_max_index st + 1 \<and> equals (ColorSet cm (st_color_set st)) cs" by simp
    then show ?thesis by blast
  qed
qed

lemma increment_strings:
  assumes inj: "inj_on (colormap m) D"
    and ok: "counters_ok D (color_set_states m)"
    and wf: "well_formed (colormap m) cs"
    and sub: "set (get_data cs) \<subseteq> D"
  defines "r \<equiv> increment_max_index_for_color_set m cs"
  shows "(\<Union>st\<in>set (color_set_states (snd r)). state_strings ext (colormap m) key tn st)
           = insert (derive_address ext key cs (fst r) tn)
               (\<Union>st\<in>set (color_set_states m). state_strings ext (colormap m) key tn st)"
    and "counters_ok D (color_set_states (snd r))"
proof -
  let ?cm = "colormap m" and ?sts = "color_set_states m"
  let ?S = "\<lambda>sts. \<Union>st\<in>set sts. state_strings ext ?cm key tn st"
  have both: "?S (color_set_states (snd r)) = insert (derive_address ext key cs (fst r) tn) (?S ?sts)
      \<and> counters_ok D (color_set_states (snd r))"
  proof (cases "increment_loop ?cm cs ?sts")
    case None
    then have r: "fst r = 0"
      "color_set_states (snd r) = ?sts @ [\<lparr>st_color_set = get_data cs, st_max_index = 0\<rparr>]"
      by (simp_all add: r_def increment_max_index_for_color_set_def)
    have "color_string ext (ColorSet ?cm (get_data cs)) = color_string ext cs"
      by (rule color_string_same) (simp add: get_data_ColorSet)
    then have same: "derive_address ext key (ColorSet ?cm (get_data cs)) 0 tn
        = derive_address ext key cs 0 tn" by (rule derive_address_same)
    have "xrange (0 + 1) = [0]" by (simp add: xrange_def)
    with same have "state_strings ext ?cm key tn \<lparr>st_color_set = get_data cs, st_max_index = 0\<rparr>
        = {derive_address ext key cs 0 tn}"
      by (simp add: state_strings_def)
    with ok sub show ?thesis by (simp add: r counters_ok_def)
  next
    case (Some p)
    obtain i sts' where p: "p = (i, sts')" by (cases p)
    from Some p have r: "fst r = i" "color_set_states (snd r) = sts'"
      by (simp_all add: r_def increment_max_index_for_color_set_def)
    from increment_loop_split [OF Some [unfolded p]] obtain pre st post where
      sts: "?sts = pre @ st # post" and sts': "sts' = pre @ st\<lparr>st_max_index := i\<rparr> # post"
      and i: "i = st_max_index st + 1" and eq: "equals (ColorSet ?cm (st_color_set st)) cs"
      by blast
    from ok sts have st_ok: "- 1 \<le> st_max_index st" "set (st_color_set st) \<subseteq> D"
      by (simp_all add: counters_ok_def)
    from equals_same_descs [OF inj st_ok(2) sub wf eq]
    have "color_string ext (ColorSet ?cm (st_color_set st)) = color_string ext cs"
      by (intro color_string_same) (simp add: get_data_ColorSet)
    then have same: "derive_address ext key (ColorSet ?cm (st_color_set st)) i tn
        = derive_address ext key cs i tn" by (rule derive_address_same)
    have "state_strings ext ?cm key tn (st\<lparr>st_max_index := i\<rparr>)
        = insert (derive_address ext key cs i tn) (state_strings ext ?cm key tn st)"
      using xrange_next [OF st_ok(1)] same by (simp add: state_strings_def i)
    moreover have "counters_ok D sts'"
      using ok st_ok by (auto simp: counters_ok_def sts sts' i)
    ultimately show ?thesis by (auto simp: r sts sts')
  qed
  from both show "?S (color_set_states (snd r)) = insert (derive_address ext key cs (fst r) tn) (?S ?sts)"
    by blast
  from both show "counters_ok D (color_set_states (snd r))" by blast
qed

lemma expected_strings_fields:
  "master_key m' = master_key m \<Longrightarrow> colormap m' = colormap m \<Longrightarrow> testnet m' = testnet m \<Longrightarrow>
   genesis_color_sets m' = genesis_color_sets m \<Longrightarrow> color_set_states m' = color_set_states m \<Longrightarrow>
   expected_strings ext m' = expected_strings ext m"
  by (simp add: expected_strings_def)


lemma constructor_result:
  assumes "DWalletAddressManager ext urandom_hex cm cfg = Inr m0"
    and "cfg_addresses cfg = None \<or> cfg_addresses cfg = Some []"
  shows "\<exists>cfg1 key params.
           cfg_dw_master_key cfg1 = Some key \<and> cfg_dwam cfg1 = Some params \<and>
           cfg_testnet cfg1 = cfg_testnet cfg \<and> cfg_addresses cfg1 = cfg_addresses cfg \<and>
           m0 = import_specific_color_addresses ext
                  (import_genesis_addresses ext
                     \<lparr>config = cfg1,
                      testnet = (case cfg_testnet cfg of None \<Rightarrow> False | Some b \<Rightarrow> b),
                      colormap = cm, addresses = [], master_key = key,
                      genesis_color_sets = dwam_genesis_color_sets params,
                      color_set_states = dwam_color_set_states params, heap = []\<rparr>)"
proof -
  define ip where "ip = (case cfg_dwam cfg of
                            None \<Rightarrow> init_new_wallet urandom_hex cfg
                          | Some p \<Rightarrow> (p, cfg))"
  have facts: "cfg_dwam (snd ip) = Some (fst ip)" "cfg_testnet (snd ip) = cfg_testnet cfg"
    "cfg_addresses (snd ip) = cfg_addresses cfg"
    by (auto simp: ip_def init_new_wallet_def Let_def split: option.splits)
  from assms(1) obtain key where key: "cfg_dw_master_key (snd ip) = Some key"
    and m0: "import_one_off_addresses_from_config
               (import_specific_color_addresses ext
                  (import_genesis_addresses ext
                     \<lparr>config = snd ip,
                      testnet = (case cfg_testnet cfg of None \<Rightarrow> False | Some b \<Rightarrow> b),
                      colormap = cm, addresses = [], master_key = key,
                      genesis_color_sets = dwam_genesis_color_sets (fst ip),
                      color_set_states = dwam_color_set_states (fst ip), heap = []\<rparr>)) = Inr m0"
    by (auto simp: DWalletAddressManager_def Let_def ip_def [symmetric] split_beta
        split: option.splits)
  let ?ms = "\<lparr>config = snd ip,
              testnet = (case cfg_testnet cfg of None \<Rightarrow> False | Some b \<Rightarrow> b),
              colormap = cm, addresses = [], master_key = key,
              genesis_color_sets = dwam_genesis_color_sets (fst ip),
              color_set_states = dwam_color_set_states (fst ip), heap = []\<rparr>"
  have "addresses ?ms = []" by simp
  moreover from assms(2) facts(3)
  have "cfg_addresses (config ?ms) = None \<or> cfg_addresses (config ?ms) = Some []" by simp
  ultimately have "import_one_off_addresses_from_config
           (import_specific_color_addresses ext (import_genesis_addresses ext ?ms))
         = Inr (import_specific_color_addresses ext (import_genesis_addresses ext ?ms))"
    by (rule constructed)
  with m0 have "m0 = import_specific_color_addresses ext (import_genesis_addresses ext ?ms)"
    by simp
  with key facts show ?thesis by blast
qed


lemma constructor_in_sync:
  assumes init: "DWalletAddressManager ext urandom_hex cm cfg = Inr m0"
    and loose: "cfg_addresses cfg = None \<or> cfg_addresses cfg = Some []"
    and ok: "counters_ok D (color_set_states m0)"
  shows "in_sync ext D m0" and "colormap m0 = cm"
proof -
  from constructor_result [OF init loose] obtain cfg1 key params where
    k: "cfg_dw_master_key cfg1 = Some key" and p: "cfg_dwam cfg1 = Some params"
    and t: "cfg_testnet cfg1 = cfg_testnet cfg"
    and m0: "m0 = import_specific_color_addresses ext
                  (import_genesis_addresses ext
                     \<lparr>config = cfg1,
                      testnet = (case cfg_testnet cfg of None \<Rightarrow> False | Some b \<Rightarrow> b),
                      colormap = cm, addresses = [], master_key = key,
                      genesis_color_sets = dwam_genesis_color_sets params,
                      color_set_states = dwam_color_set_states params, heap = []\<rparr>)"
    by blast
  let ?ms = "\<lparr>config = cfg1,
              testnet = (case cfg_testnet cfg of None \<Rightarrow> False | Some b \<Rightarrow> b),
              colormap = cm, addresses = [], master_key = key,
              genesis_color_sets = dwam_genesis_color_sets params,
              color_set_states = dwam_color_set_states params, heap = []\<rparr>"
  have "addresses ?ms = []" by simp
  then have mat: "address_strings ext m0 = expected_strings ext ?ms" "refs_ok m0"
    "same_wallet ?ms m0"
    unfolding m0 by (rule materialize)+
  from mat(3) show "colormap m0 = cm" by (simp add: same_wallet_def)
  from mat(3) have "expected_strings ext m0 = expected_strings ext ?ms"
    by (rule expected_strings_cong)
  with mat ok k p t show "in_sync ext D m0"
    by (simp add: in_sync_def same_wallet_def)
qed

lemma get_new_address_config:
  "cfg_dw_master_key (config (snd (get_new_address ext m q))) = cfg_dw_master_key (config m)"
  "cfg_testnet (config (snd (get_new_address ext m q))) = cfg_testnet (config m)"
  "cfg_addresses (config (snd (get_new_address ext m q))) = cfg_addresses (config m)"
  by (simp_all add: get_new_address_unfold Let_def update_config_def addresses_add_def
      increment_fields)

lemma get_new_address_strings:
  assumes "refs_ok m"
  shows "address_strings ext (snd (get_new_address ext m q))
           = insert (derive_address ext (master_key m) (resolve_color_set q)
                       (fst (increment_max_index_for_color_set m (resolve_color_set q))) (testnet m))
               (address_strings ext m)"
    and "refs_ok (snd (get_new_address ext m q))"
proof -
  let ?r = "increment_max_index_for_color_set m (resolve_color_set q)"
  let ?obj = "Deterministic (DeterministicAddressRecord ext (master_key m) (resolve_color_set q)
                (fst ?r) (testnet m))"
  let ?m2 = "addresses_add (length (heap (snd ?r))) ((snd ?r)\<lparr>heap := heap (snd ?r) @ [?obj]\<rparr>)"
  from assms have ok1: "refs_ok (snd ?r)" by (simp add: refs_ok_def increment_fields)
  note a = add_new_object [OF ok1, of ?obj]
  have m': "snd (get_new_address ext m q) = update_config ?m2"
    by (simp add: get_new_address_unfold Let_def increment_fields)
  have h: "held (update_config ?m2) = held ?m2" "refs_ok (update_config ?m2) = refs_ok ?m2"
    by (simp_all add: held_def refs_ok_def update_config_def)
  have "held (snd ?r) = held m" by (simp add: held_def increment_fields)
  with a(1) h(1) show "address_strings ext (snd (get_new_address ext m q))
           = insert (derive_address ext (master_key m) (resolve_color_set q) (fst ?r) (testnet m))
               (address_strings ext m)"
    by (simp add: m' address_strings_held get_address_new)
  from a(2) h(2) show "refs_ok (snd (get_new_address ext m q))" by (simp add: m')
qed

lemma get_new_address_in_sync:
  assumes sync: "in_sync ext D m"
    and inj: "inj_on (colormap m) D"
    and wf: "well_formed (colormap m) (resolve_color_set q)"
    and sub: "set (get_data (resolve_color_set q)) \<subseteq> D"
  shows "in_sync ext D (snd (get_new_address ext m q))"
proof -
  let ?m' = "snd (get_new_address ext m q)"
  let ?r = "increment_max_index_for_color_set m (resolve_color_set q)"
  from sync have ok: "refs_ok m" and cok: "counters_ok D (color_set_states m)"
    and str: "address_strings ext m = expected_strings ext m"
    by (simp_all add: in_sync_def)
  note s = get_new_address_strings [OF ok, of ext q]
  note i = increment_strings(1) [OF inj cok wf sub, where ext = ext and key = "master_key m"
      and tn = "testnet m"] increment_strings(2) [OF inj cok wf sub]
  have "expected_strings ext ?m'
      = insert (derive_address ext (master_key m) (resolve_color_set q) (fst ?r) (testnet m))
          (expected_strings ext m)"
    using i(1) by (simp add: expected_strings_def get_new_address_fields)
  with s(1) str have "address_strings ext ?m' = expected_strings ext ?m'" by simp
  moreover from i(2) have "counters_ok D (color_set_states ?m')"
    by (simp add: get_new_address_fields)
  ultimately show ?thesis
    using s(2) sync
    by (simp add: in_sync_def get_new_address_fields get_new_address_config)
qed


lemma address_color_set: "fst (address ext (r\<lparr>color_set := cs\<rparr>)) = fst (address ext r)"
  by (simp add: address_def publicPoint_def rawPrivKey_def Let_def split_beta split: option.splits)

lemma get_address_with_color_set: "get_address ext (with_color_set cs obj) = get_address ext obj"
  by (cases obj) (simp_all add: get_address_def with_color_set_def address_color_set)

lemma set_color_set_sync:
  assumes "addr < length (heap m)"
  shows "address_strings ext (set_color_set addr cs m) = address_strings ext m"
    and "refs_ok (set_color_set addr cs m) = refs_ok m"
    and "same_wallet m (set_color_set addr cs m)"
proof -
  have "get_address ext ((heap m)[addr := with_color_set cs (heap m ! addr)] ! r)
      = get_address ext (heap m ! r)" for r
    using assms by (cases "r = addr") (simp_all add: get_address_with_color_set)
  then show "address_strings ext (set_color_set addr cs m) = address_strings ext m"
    by (simp add: address_strings_def set_color_set_def)
  show "refs_ok (set_color_set addr cs m) = refs_ok m"
    by (simp add: refs_ok_def set_color_set_def)
  show "same_wallet m (set_color_set addr cs m)"
    by (simp add: same_wallet_def set_color_set_def)
qed

lemma in_sync_same:
  assumes "in_sync ext D m" and "same_wallet m m'"
    and "address_strings ext m' = address_strings ext m" and "refs_ok m'"
  shows "in_sync ext D m'"
  using assms expected_strings_cong [OF assms(2), of ext]
  by (simp add: in_sync_def same_wallet_def)

lemma list_setitem_length: "list_setitem xs i v = Some g \<Longrightarrow> length g = length xs"
  by (auto simp: list_setitem_def split: if_splits)

lemma update_genesis_address_in_sync:
  assumes "in_sync ext D m"
  shows "in_sync ext D (case update_genesis_address m addr cs of
                          Inl (e, m') \<Rightarrow> m' | Inr m' \<Rightarrow> m')"
    and "colormap (case update_genesis_address m addr cs of
                          Inl (e, m') \<Rightarrow> m' | Inr m' \<Rightarrow> m') = colormap m"
proof -
  let ?res = "case update_genesis_address m addr cs of Inl (e, m') \<Rightarrow> m' | Inr m' \<Rightarrow> m'"
  let ?m1 = "set_color_set addr cs m"
  have both: "in_sync ext D ?res \<and> colormap ?res = colormap m"
  proof (cases "addr < length (heap m) \<and> color_id_set (get_color_set (heap m ! addr)) = {}")
    case False
    then have "?res = m" by (auto simp: update_genesis_address_def)
    with assms show ?thesis by simp
  next
    case True
    then have len: "addr < length (heap m)" by simp
    note s = set_color_set_sync(1) [OF len, where ext = ext and cs = cs]
      set_color_set_sync(2) [OF len, where cs = cs] set_color_set_sync(3) [OF len, where cs = cs]
    from assms have "refs_ok m" by (simp add: in_sync_def)
    with s(2) have ok1: "refs_ok ?m1" by simp
    from assms s(3) s(1) ok1 have sync1: "in_sync ext D ?m1" by (rule in_sync_same)
    from s(3) have cm1: "colormap ?m1 = colormap m" by (simp add: same_wallet_def)
    show ?thesis
    proof (cases "get_index (heap ?m1 ! addr)")
      case None
      with True have "?res = ?m1" by (simp add: update_genesis_address_def Let_def)
      with sync1 cm1 show ?thesis by simp
    next
      case (Some i)
      show ?thesis
      proof (cases "list_setitem (genesis_color_sets ?m1) i (get_data cs)")
        case None
        with True Some have "?res = ?m1" by (simp add: update_genesis_address_def Let_def)
        with sync1 cm1 show ?thesis by simp
      next
        case (Some g)
        from list_setitem_length [OF Some]
        have lg: "length g = length (genesis_color_sets ?m1)" .
        from True \<open>get_index (heap ?m1 ! addr) = Some i\<close> Some
        have res: "?res = update_config (?m1\<lparr>genesis_color_sets := g\<rparr>)"
          by (simp add: update_genesis_address_def Let_def)
        have "expected_strings ext (update_config (?m1\<lparr>genesis_color_sets := g\<rparr>))
            = expected_strings ext ?m1"
          using lg by (simp add: expected_strings_def update_config_def)
        moreover have "address_strings ext (update_config (?m1\<lparr>genesis_color_sets := g\<rparr>))
            = address_strings ext ?m1"
          by (simp add: address_strings_def update_config_def)
        ultimately have "in_sync ext D (update_config (?m1\<lparr>genesis_color_sets := g\<rparr>))"
          using sync1 by (simp add: in_sync_def refs_ok_def update_config_def)
        with cm1 res show ?thesis by (simp add: update_config_def)
      qed
    qed
  qed
  from both show "in_sync ext D ?res" and "colormap ?res = colormap m" by blast+
qed

lemma get_new_genesis_address_in_sync:
  assumes "in_sync ext D m"
  shows "in_sync ext D (snd (get_new_genesis_address ext m))"
    and "colormap (snd (get_new_genesis_address ext m)) = colormap m"
proof -
  let ?m1 = "update_config (m\<lparr>genesis_color_sets := genesis_color_sets m @ [[]]\<rparr>)"
  let ?obj = "Deterministic (DeterministicAddressRecord ext (master_key m)
                (ColorSet (colormap m) []) (int (length (genesis_color_sets m))) (testnet m))"
  let ?m' = "addresses_add (length (heap ?m1)) (?m1\<lparr>heap := heap ?m1 @ [?obj]\<rparr>)"
  have res: "snd (get_new_genesis_address ext m) = ?m'"
    by (simp add: get_new_genesis_address_def get_genesis_address_def new_object_def Let_def
        update_config_def)
  from assms have ok: "refs_ok ?m1" by (simp add: in_sync_def refs_ok_def update_config_def)
  note a = add_new_object [OF ok, of ?obj]
  have "address_strings ext ?m1 = address_strings ext m"
    by (simp add: address_strings_def update_config_def)
  with a(1) have str: "address_strings ext ?m'
      = insert (derive_address ext (master_key m) (ColorSet (colormap m) [])
                  (int (length (genesis_color_sets m))) (testnet m)) (address_strings ext m)"
    by (simp add: address_strings_held get_address_new)
  have "expected_strings ext ?m1
      = insert (derive_address ext (master_key m) (ColorSet (colormap m) [])
                  (int (length (genesis_color_sets m))) (testnet m)) (expected_strings ext m)"
    by (simp add: expected_strings_def update_config_def lessThan_Suc)
  with expected_strings_cong [OF a(3), of ext]
  have exp: "expected_strings ext ?m'
      = insert (derive_address ext (master_key m) (ColorSet (colormap m) [])
                  (int (length (genesis_color_sets m))) (testnet m)) (expected_strings ext m)"
    by simp
  from assms have "address_strings ext m = expected_strings ext m" by (simp add: in_sync_def)
  with str exp have "address_strings ext ?m' = expected_strings ext ?m'" by simp
  with a(2,3) assms have "in_sync ext D ?m'"
    by (simp add: in_sync_def same_wallet_def update_config_def)
  with res show "in_sync ext D (snd (get_new_genesis_address ext m))" by simp
  from a(3) res show "colormap (snd (get_new_genesis_address ext m)) = colormap m"
    by (simp add: same_wallet_def update_config_def)
qed

lemma wallet_step_in_sync:
  assumes "in_sync ext D m" and "inj_on (colormap m) D"
    and "\<forall>q\<in>set (requests_of [step]). well_formed (colormap m) (resolve_color_set q) \<and>
           set (get_data (resolve_color_set q)) \<subseteq> D"
  shows "in_sync ext D (wallet_step ext m step)"
    and "colormap (wallet_step ext m step) = colormap m"
proof -
  have "in_sync ext D (wallet_step ext m step) \<and> colormap (wallet_step ext m step) = colormap m"
  proof (cases step)
    case (Allocate q)
    with assms(3) have "well_formed (colormap m) (resolve_color_set q)"
      "set (get_data (resolve_color_set q)) \<subseteq> D"
      by (simp_all add: requests_of_def)
    from get_new_address_in_sync [OF assms(1,2) this] Allocate
    show ?thesis by (simp add: wallet_step_def get_new_address_fields)
  next
    case Mint_genesis
    with get_new_genesis_address_in_sync [OF assms(1)] show ?thesis
      by (simp add: wallet_step_def)
  next
    case (Bind_genesis addr cs)
    with update_genesis_address_in_sync [OF assms(1), of addr cs] show ?thesis
      by (simp add: wallet_step_def)
  qed
  then show "in_sync ext D (wallet_step ext m step)"
    and "colormap (wallet_step ext m step) = colormap m" by blast+
qed

lemma requests_of_Cons: "requests_of (step # steps) = requests_of [step] @ requests_of steps"
  by (simp add: requests_of_def)

lemma wallet_run_in_sync:
  assumes "in_sync ext D m" and "inj_on (colormap m) D"
    and "\<forall>q\<in>set (requests_of steps). well_formed (colormap m) (resolve_color_set q) \<and>
           set (get_data (resolve_color_set q)) \<subseteq> D"
  shows "in_sync ext D (wallet_run ext m steps) \<and> colormap (wallet_run ext m steps) = colormap m"
  using assms
proof (induction steps arbitrary: m)
  case Nil
  then show ?case by (simp add: wallet_run_def)
next
  case (Cons step steps)
  let ?m1 = "wallet_step ext m step"
  from Cons.prems(3) have now: "\<forall>q\<in>set (requests_of [step]).
      well_formed (colormap m) (resolve_color_set q) \<and> set (get_data (resolve_color_set q)) \<subseteq> D"
    and later: "\<forall>q\<in>set (requests_of steps).
      well_formed (colormap m) (resolve_color_set q) \<and> set (get_data (resolve_color_set q)) \<subseteq> D"
    by (simp_all add: requests_of_Cons [of step steps])
  note s = wallet_step_in_sync [OF Cons.prems(1,2) now]
  from Cons.prems(2) later s(2) have "inj_on (colormap ?m1) D"
    "\<forall>q\<in>set (requests_of steps).
      well_formed (colormap ?m1) (resolve_color_set q) \<and> set (get_data (resolve_color_set q)) \<subseteq> D"
    by simp_all
  from Cons.IH [OF s(1) this] s(2) show ?case by (simp add: wallet_run_def)
qed


lemma restart_in_sync:
  assumes "in_sync ext D m"
  shows "\<exists>m2. DWalletAddressManager ext urandom_hex (colormap m) (persisted_state (config m)) = Inr m2 \<and>
           address_strings ext m2 = address_strings ext m"
proof -
  let ?ms = "\<lparr>config = persisted_state (config m), testnet = testnet m,
              colormap = colormap m, addresses = [], master_key = master_key m,
              genesis_color_sets = genesis_color_sets m,
              color_set_states = color_set_states m, heap = []\<rparr>"
  let ?m2 = "import_specific_color_addresses ext (import_genesis_addresses ext ?ms)"
  have "import_one_off_addresses_from_config ?m2 = Inr ?m2"
    by (rule constructed) (simp_all add: persisted_state_def)
  with assms have "DWalletAddressManager ext urandom_hex (colormap m) (persisted_state (config m))
      = Inr ?m2"
    by (simp add: DWalletAddressManager_def in_sync_def persisted_state_def)
  moreover have "address_strings ext ?m2 = expected_strings ext ?ms"
    by (rule materialize) simp
  moreover have "expected_strings ext ?ms = expected_strings ext m"
    by (rule expected_strings_fields) simp_all
  moreover from assms have "address_strings ext m = expected_strings ext m"
    by (simp add: in_sync_def)
  ultimately show ?thesis by simp
qed

text \<open>
  C2. Take a manager built from a configuration with no one-off addresses, whose stored
  counters are at least \<open>- 1\<close>, and let a caller run any steps on it: new addresses for
  color sets of the wallet, new genesis addresses, bindings of genesis addresses (failed
  ones too), the color map giving distinct ids to the distinct descriptors in use. Then
  the manager holds exactly the addresses its persisted state stands for, one for each
  position of the genesis registry and one for each index up to the maximum of each
  counter, and a manager built afresh from the persisted state, with the same master key
  and network flag, holds exactly the same set of address strings.
\<close>


theorem restart_fidelity:
  assumes "DWalletAddressManager ext urandom_hex cm cfg = Inr m0"
    and "cfg_addresses cfg = None \<or> cfg_addresses cfg = Some []"
    and "inj_on cm D"
    and "\<forall>st\<in>set (color_set_states m0). - 1 \<le> st_max_index st \<and> set (st_color_set st) \<subseteq> D"
    and "\<forall>q\<in>set (requests_of steps). well_formed cm (resolve_color_set q) \<and>
           set (get_data (resolve_color_set q)) \<subseteq> D"
  shows "(\<exists>m2. DWalletAddressManager ext urandom_hex' cm
                 (persisted_state (config (wallet_run ext m0 steps))) = Inr m2 \<and>
              address_strings ext m2 = address_strings ext (wallet_run ext m0 steps)) \<and>
         address_strings ext (wallet_run ext m0 steps)
           = expected_strings ext (wallet_run ext m0 steps)"
proof -
  from assms(4) have ok: "counters_ok D (color_set_states m0)" by (simp add: counters_ok_def)
  note c = constructor_in_sync [OF assms(1,2) ok]
  from c(1) assms(3,5)
  have r: "in_sync ext D (wallet_run ext m0 steps) \<and> colormap (wallet_run ext m0 steps) = colormap m0"
    by (intro wallet_run_in_sync) (simp_all add: c(2))
  then have sync: "in_sync ext D (wallet_run ext m0 steps)"
    and cm: "colormap (wallet_run ext m0 steps) = cm" by (simp_all add: c(2))
  from restart_in_sync [OF sync, of urandom_hex'] cm sync show ?thesis
    by (simp add: in_sync_def)
qed


theorem restart_fidelity_witness:
  "DWalletAddressManager example_externals ''5eed'' example_colormap fresh_config = Inr fresh_wallet \<and>
   inj_on example_colormap {''red'', ''blue''} \<and>
   (\<exists>m2. DWalletAddressManager example_externals ''0ther'' example_colormap
            (persisted_state (config (wallet_run example_externals fresh_wallet example_steps)))
            = Inr m2 \<and>
         address_strings example_externals m2
           = address_strings example_externals
               (wallet_run example_externals fresh_wallet example_steps)) \<and>
   genesis_color_sets (wallet_run example_externals fresh_wallet example_steps)
     = [[''red''], []] \<and>
   address_strings example_externals (wallet_run example_externals fresh_wallet example_steps)
     = {''11832'', ''11833'', ''1720'', ''1721'', ''1722''}"
proof -
  have init: "DWalletAddressManager example_externals ''5eed'' example_colormap fresh_config
      = Inr fresh_wallet"
    by (simp add: DWalletAddressManager_def fresh_config_def fresh_wallet_def init_new_wallet_def
      import_genesis_addresses_def import_specific_color_addresses_def
      import_one_off_addresses_from_config_def Let_def)
  have loose: "cfg_addresses fresh_config = None \<or> cfg_addresses fresh_config = Some []"
    by (simp add: fresh_config_def)
  have inj: "inj_on example_colormap {''red'', ''blue''}"
    by (simp add: example_colormap_def)
  have stored: "\<forall>st\<in>set (color_set_states fresh_wallet).
      - 1 \<le> st_max_index st \<and> set (st_color_set st) \<subseteq> {''red'', ''blue''}"
    by (simp add: fresh_wallet_def)
  have reqs: "\<forall>q\<in>set (requests_of example_steps).
      well_formed example_colormap (resolve_color_set q) \<and>
      set (get_data (resolve_color_set q)) \<subseteq> {''red'', ''blue''}"
    by (simp add: example_steps_def requests_of_def resolve_color_set_def example_well_formed)
      (simp add: ColorSet_def get_data_def)
  have registry: "genesis_color_sets (wallet_run example_externals fresh_wallet example_steps)
     = [[''red''], []]"
    by code_simp
  have strings: "address_strings example_externals
     (wallet_run example_externals fresh_wallet example_steps)
     = {''11832'', ''11833'', ''1720'', ''1721'', ''1722''}"
    by code_simp
  from restart_fidelity [OF init loose inj stored reqs, of "''0ther''"] init inj registry strings
  show ?thesis by blast
qed

section \<open>Colorless queries\<close>

lemma colorless_data:
  "color_id_set cs = {} \<Longrightarrow> well_formed cm cs \<Longrightarrow> get_data cs = []"
  by (simp add: well_formed_def)

text \<open>
  C10, as the code has it. A query with a color set of the wallet that has no color id
  matches no record: the list of addresses for it is empty, so \<^verbatim>\<open>get_some_address\<close>
  and \<^verbatim>\<open>get_change_address\<close> return no record the manager already holds and do what
  \<^verbatim>\<open>get_new_address\<close> does. That appends one new record to the address space, at the
  index after the maximum of the colorless counter, sets the counter to that index and
  persists the counters. The new record is derived under the genesis marker, so its
  address string is the one of the genesis address of the same index.
\<close>

theorem colorless_query_allocates:
  assumes "color_id_set cs = {}"
    and "well_formed (colormap m) cs"
    and "\<forall>r\<in>set (addresses m). r < length (heap m)"
  shows "get_addresses_for_color_set rank m cs = [] \<and>
         get_some_address ext rank m cs = get_new_address ext m (A_color_set cs) \<and>
         get_change_address ext rank m cs = get_new_address ext m (A_color_set cs) \<and>
         fst (get_some_address ext rank m cs) = length (heap m) \<and>
         fst (get_some_address ext rank m cs) \<notin> set (addresses m) \<and>
         heap (snd (get_some_address ext rank m cs))
           = heap m @ [Deterministic (DeterministicAddressRecord ext (master_key m) cs
                         (counter (colormap m) cs (color_set_states m) + 1) (testnet m))] \<and>
         addresses (snd (get_some_address ext rank m cs)) = addresses m @ [length (heap m)] \<and>
         counter (colormap m) cs (color_set_states (snd (get_some_address ext rank m cs)))
           = counter (colormap m) cs (color_set_states m) + 1 \<and>
         cfg_dwam (config (snd (get_some_address ext rank m cs)))
           = Some \<lparr>dwam_genesis_color_sets = genesis_color_sets m,
                   dwam_color_set_states
                     = color_set_states (snd (get_some_address ext rank m cs))\<rparr> \<and>
         get_address ext (heap (snd (get_some_address ext rank m cs))
                            ! fst (get_some_address ext rank m cs))
           = get_address ext
               (heap (snd (get_genesis_address ext m
                             (counter (colormap m) cs (color_set_states m) + 1)))
                  ! fst (get_genesis_address ext m
                           (counter (colormap m) cs (color_set_states m) + 1)))"
proof -
  let ?idx = "counter (colormap m) cs (color_set_states m) + 1"
  let ?q = "A_color_set cs"
  let ?r = "get_new_address ext m ?q"
  have q: "resolve_color_set ?q = cs" by (simp add: resolve_color_set_def)
  have none: "get_addresses_for_color_set rank m cs = []"
    using assms(1) by (simp add: get_addresses_for_color_set_def intersects_def)
  then have some: "get_some_address ext rank m cs = ?r"
    by (simp add: get_some_address_def)
  then have change: "get_change_address ext rank m cs = ?r"
    by (simp add: get_change_address_def)
  from assms(2) have wf: "well_formed (colormap m) (resolve_color_set ?q)" by (simp add: q)
  note inc = increment_counter [OF assms(2)]
  from assms(3) have fresh: "length (heap m) \<notin> set (addresses m)" by auto
  have ref: "fst ?r = length (heap m)" by (simp add: get_new_address_fields)
  have heap': "heap (snd ?r) = heap m @ [Deterministic (DeterministicAddressRecord ext
                  (master_key m) cs ?idx (testnet m))]"
    by (simp add: get_new_address_fields q inc(1))
  have held': "addresses (snd ?r) = addresses m @ [length (heap m)]"
    using fresh
    by (simp add: get_new_address_unfold Let_def update_config_def addresses_add_def
        increment_fields)
  have count: "counter (colormap m) cs (color_set_states (snd ?r)) = ?idx"
    using inc(3) by (simp add: get_new_address_fields q)
  have persisted: "cfg_dwam (config (snd ?r))
      = Some \<lparr>dwam_genesis_color_sets = genesis_color_sets m,
              dwam_color_set_states = color_set_states (snd ?r)\<rparr>"
    by (simp add: get_new_address_fields)
  from colorless_data [OF assms(1,2)]
  have "color_string ext cs = color_string ext (ColorSet (colormap m) [])"
    by (intro color_string_same) (simp add: get_data_ColorSet)
  then have same: "derive_address ext (master_key m) cs ?idx (testnet m)
      = derive_address ext (master_key m) (ColorSet (colormap m) []) ?idx (testnet m)"
    by (rule derive_address_same)
  have "get_address ext (heap (snd ?r) ! fst ?r)
      = derive_address ext (master_key m) cs ?idx (testnet m)"
    by (simp add: heap' ref get_address_new)
  moreover have "get_address ext (heap (snd (get_genesis_address ext m ?idx))
                                    ! fst (get_genesis_address ext m ?idx))
      = derive_address ext (master_key m) (ColorSet (colormap m) []) ?idx (testnet m)"
    by (simp add: get_genesis_address_def new_object_def get_address_new)
  ultimately have collide: "get_address ext (heap (snd ?r) ! fst ?r)
      = get_address ext (heap (snd (get_genesis_address ext m ?idx))
                           ! fst (get_genesis_address ext m ?idx))"
    using same by simp
  from none change fresh ref heap' held' count persisted collide show ?thesis
    unfolding some by (intro conjI) simp_all
qed

theorem colorless_query_allocates_witness:
  "color_id_set (ColorSet example_colormap []) = {} \<and>
   well_formed (colormap minted_wallet) (ColorSet example_colormap []) \<and>
   addresses minted_wallet = [0] \<and> length (heap minted_wallet) = 1 \<and>
   get_addresses_for_color_set insertion_rank minted_wallet (ColorSet example_colormap []) = [] \<and>
   fst (get_some_address example_externals insertion_rank minted_wallet (ColorSet example_colormap []))
     = 1 \<and>
   addresses (snd (get_some_address example_externals insertion_rank minted_wallet
                     (ColorSet example_colormap []))) = [0, 1] \<and>
   counter example_colormap (ColorSet example_colormap [])
     (color_set_states (snd (get_some_address example_externals insertion_rank minted_wallet
                               (ColorSet example_colormap [])))) = 0"
proof -
  let ?cs = "ColorSet example_colormap []"
  have h: "color_id_set ?cs = {}" by (simp add: ColorSet_def)
  have held: "addresses minted_wallet = [0]" "length (heap minted_wallet) = 1"
    and cm: "colormap minted_wallet = example_colormap"
    and sts: "color_set_states minted_wallet = []"
    by (simp_all add: minted_wallet_def get_new_genesis_address_def get_genesis_address_def
        new_object_def addresses_add_def update_config_def fresh_wallet_def Let_def)
  have wf: "well_formed (colormap minted_wallet) ?cs" by (simp add: cm example_well_formed)
  from held have refs: "\<forall>r\<in>set (addresses minted_wallet). r < length (heap minted_wallet)"
    by simp
  have c0: "counter example_colormap ?cs [] = - 1" by (simp add: counter_def find_state_def)
  note c = colorless_query_allocates [OF h wf refs, of insertion_rank example_externals]
  from c have none: "get_addresses_for_color_set insertion_rank minted_wallet ?cs = []"
    and new: "fst (get_some_address example_externals insertion_rank minted_wallet ?cs)
      = length (heap minted_wallet)"
    and grown: "addresses (snd (get_some_address example_externals insertion_rank minted_wallet ?cs))
      = addresses minted_wallet @ [length (heap minted_wallet)]"
    and count: "counter (colormap minted_wallet) ?cs
        (color_set_states (snd (get_some_address example_externals insertion_rank minted_wallet ?cs)))
      = counter (colormap minted_wallet) ?cs (color_set_states minted_wallet) + 1"
    by blast+
  from h wf held none new grown count cm sts c0 show ?thesis by simp
qed

text \<open>
  C10, as stated, fails for address strings: in a wallet that holds genesis address 0,
  the address returned for a colorless query is the address string that genesis address
  already has, and the set of address strings of the wallet does not grow.
\<close>

theorem colorless_allocation_counterexample:
  "address_strings example_externals minted_wallet = {''11832''} \<and>
   get_address example_externals
     (heap (snd (get_some_address example_externals insertion_rank minted_wallet
                   (ColorSet example_colormap [])))
        ! fst (get_some_address example_externals insertion_rank minted_wallet
                 (ColorSet example_colormap []))) = ''11832'' \<and>
   address_strings example_externals
     (snd (get_some_address example_externals insertion_rank minted_wallet
             (ColorSet example_colormap []))) = {''11832''}"
  by code_simp

section \<open>The backend factory: proofs\<close>

text \<open>
  C6. Off testnet, a requested name that is none of the five known ones is a fatal error,
  and no interface is constructed. On testnet, any requested name outside chromanode,
  helloblock and abe_testnet (electrum and blockchain.info among them, and names that are
  not known at all) gives the chromanode interface. An error arises in the first case only.
\<close>

theorem backend_factory:
  "(\<not> model_testnet \<and> params_get params ''interface'' (PyStr ''chromanode'') \<notin> known_services \<longrightarrow>
      make_interface model_testnet params = Inl (Exception ''Unknown service for UTXOFetcher!'')) \<and>
   (model_testnet \<and> params_get params ''interface'' (PyStr ''chromanode'') \<notin> testnet_services \<longrightarrow>
      make_interface model_testnet params = Inr (ChromanodeInterface PyNone True)) \<and>
   ((\<exists>e. make_interface model_testnet params = Inl e) =
      (\<not> model_testnet \<and> params_get params ''interface'' (PyStr ''chromanode'') \<notin> known_services))"
proof (intro conjI impI)
  assume "\<not> model_testnet \<and> params_get params ''interface'' (PyStr ''chromanode'') \<notin> known_services"
  then show "make_interface model_testnet params = Inl (Exception ''Unknown service for UTXOFetcher!'')"
    by (simp add: make_interface_def known_services_def Let_def)
next
  assume "model_testnet \<and> params_get params ''interface'' (PyStr ''chromanode'') \<notin> testnet_services"
  then show "make_interface model_testnet params = Inr (ChromanodeInterface PyNone True)"
    by (simp add: make_interface_def testnet_services_def Let_def)
next
  show "(\<exists>e. make_interface model_testnet params = Inl e) =
      (\<not> model_testnet \<and> params_get params ''interface'' (PyStr ''chromanode'') \<notin> known_services)"
    by (cases model_testnet) (auto simp: make_interface_def known_services_def Let_def)
qed

theorem backend_factory_witness:
  "make_interface False [''interface'' \<mapsto> PyStr ''dogecoin''] = Inl (Exception ''Unknown service for UTXOFetcher!'') \<and>
   make_interface True [''interface'' \<mapsto> PyStr ''electrum''] = Inr (ChromanodeInterface PyNone True) \<and>
   make_interface True [''interface'' \<mapsto> PyStr ''blockchain.info''] = Inr (ChromanodeInterface PyNone True) \<and>
   make_interface True [''interface'' \<mapsto> PyStr ''dogecoin''] = Inr (ChromanodeInterface PyNone True)"
proof -
  have a: "\<not> False \<and> params_get [''interface'' \<mapsto> PyStr ''dogecoin''] ''interface'' (PyStr ''chromanode'')
      \<notin> known_services"
    by (simp add: params_get_def known_services_def)
  have b: "True \<and> params_get [''interface'' \<mapsto> PyStr n] ''interface'' (PyStr ''chromanode'')
      \<notin> testnet_services"
    if "n \<in> {''electrum'', ''blockchain.info'', ''dogecoin''}" for n
    using that by (auto simp: params_get_def testnet_services_def)
  from backend_factory [of False "[''interface'' \<mapsto> PyStr ''dogecoin'']"] a
  have "make_interface False [''interface'' \<mapsto> PyStr ''dogecoin'']
      = Inl (Exception ''Unknown service for UTXOFetcher!'')" by blast
  moreover from backend_factory [of True "[''interface'' \<mapsto> PyStr ''electrum'']"] b [of "''electrum''"]
  have "make_interface True [''interface'' \<mapsto> PyStr ''electrum''] = Inr (ChromanodeInterface PyNone True)"
    by blast
  moreover from backend_factory [of True "[''interface'' \<mapsto> PyStr ''blockchain.info'']"]
    b [of "''blockchain.info''"]
  have "make_interface True [''interface'' \<mapsto> PyStr ''blockchain.info'']
      = Inr (ChromanodeInterface PyNone True)" by blast
  moreover from backend_factory [of True "[''interface'' \<mapsto> PyStr ''dogecoin'']"] b [of "''dogecoin''"]
  have "make_interface True [''interface'' \<mapsto> PyStr ''dogecoin''] = Inr (ChromanodeInterface PyNone True)"
    by blast
  ultimately show ?thesis by blast
qed

section \<open>The background fetcher: proofs\<close>
























end
